theory Spec2Isabelle
  imports Complex_Main
begin

section \<open>Phonon boundary process of G4CMP: reflection at a crystal surface\<close>

text \<open>
  A shallow embedding of \<^verbatim>\<open>library/src/G4CMPPhononBoundaryProcess.cc\<close>:
  \<^verbatim>\<open>AbsorbTrack\<close>, \<^verbatim>\<open>DoReflection\<close>, \<^verbatim>\<open>GetReflectedVector\<close>,
  \<^verbatim>\<open>GetLambertianVector\<close>, \<^verbatim>\<open>GetEdgePosition\<close> and \<^verbatim>\<open>GetReflectionOnEdge\<close>.

  Numbers. A \<^verbatim>\<open>G4double\<close> of the geometry (coordinates, distances, angles) is a
  \<^typ>\<open>real\<close>: arithmetic is exact, rounding is not modelled. The three reflection
  probabilities are divided by their sum with no test of the divisor, so there the
  special values of IEEE arithmetic matter; they are values of the type \<open>G4double\<close>
  below (a real, an infinity or not-a-number; the sign of a zero is not modelled), and
  each sum and quotient of them is rounded by a rounding that is a parameter.

  The output under \<^verbatim>\<open>verboseLevel\<close> and the variables kept only for it (\<^verbatim>\<open>oldkTan\<close>,
  \<^verbatim>\<open>oldkPerpV\<close>, \<^verbatim>\<open>oldstepLocalPos\<close>, \<^verbatim>\<open>vDir\<close>, the first \<^verbatim>\<open>surfAdjust\<close>) are left out.
\<close>

subsection \<open>G4ThreeVector (CLHEP Hep3Vector), over the reals\<close>

datatype G4ThreeVector = Vec (vx: real) (vy: real) (vz: real)

definition vadd :: "G4ThreeVector \<Rightarrow> G4ThreeVector \<Rightarrow> G4ThreeVector" where
  "vadd a b = Vec (vx a + vx b) (vy a + vy b) (vz a + vz b)"

definition vsub :: "G4ThreeVector \<Rightarrow> G4ThreeVector \<Rightarrow> G4ThreeVector" where
  "vsub a b = Vec (vx a - vx b) (vy a - vy b) (vz a - vz b)"

definition vneg :: "G4ThreeVector \<Rightarrow> G4ThreeVector" where
  "vneg a = Vec (- vx a) (- vy a) (- vz a)"

definition smult :: "real \<Rightarrow> G4ThreeVector \<Rightarrow> G4ThreeVector" where
  "smult c a = Vec (c * vx a) (c * vy a) (c * vz a)"

definition dot :: "G4ThreeVector \<Rightarrow> G4ThreeVector \<Rightarrow> real" where
  "dot a b = vx a * vx b + vy a * vy b + vz a * vz b"

definition cross :: "G4ThreeVector \<Rightarrow> G4ThreeVector \<Rightarrow> G4ThreeVector" where
  "cross a b = Vec (vy a * vz b - vy b * vz a) (vz a * vx b - vz b * vx a)
                   (vx a * vy b - vx b * vy a)"

definition mag2 :: "G4ThreeVector \<Rightarrow> real" where
  "mag2 a = vx a * vx a + vy a * vy a + vz a * vz a"

definition mag :: "G4ThreeVector \<Rightarrow> real" where
  "mag a = sqrt (mag2 a)"

text \<open>\<^verbatim>\<open>unit()\<close> leaves the zero vector as it is.\<close>

definition unit :: "G4ThreeVector \<Rightarrow> G4ThreeVector" where
  "unit a = (let tot = mag2 a in if tot > 0 then smult (1 / sqrt tot) a else a)"

text \<open>\<^verbatim>\<open>setMag(ma)\<close> cannot stretch the zero vector and leaves it as it is.\<close>

definition setMag :: "G4ThreeVector \<Rightarrow> real \<Rightarrow> G4ThreeVector" where
  "setMag a ma = (let factor = mag a in if factor = 0 then a else smult (ma / factor) a)"

text \<open>
  \<^verbatim>\<open>project(v2)\<close> is the part along \<open>v2\<close>; against the zero vector it falls back to
  \<^verbatim>\<open>project()\<close>, the part along the z axis. \<^verbatim>\<open>perpPart(v2)\<close> is the rest.
\<close>

definition project :: "G4ThreeVector \<Rightarrow> G4ThreeVector \<Rightarrow> G4ThreeVector" where
  "project a v2 = (let mag2v2 = mag2 v2 in
     if mag2v2 = 0 then Vec 0 0 (vz a) else smult (dot a v2 / mag2v2) v2)"

definition perpPart :: "G4ThreeVector \<Rightarrow> G4ThreeVector \<Rightarrow> G4ThreeVector" where
  "perpPart a v2 = vsub a (project a v2)"

text \<open>\<^verbatim>\<open>cosTheta(q)\<close> is clamped to \<open>[-1, 1]\<close>, and is \<open>0\<close> when one of the vectors is zero.\<close>

definition cosTheta :: "G4ThreeVector \<Rightarrow> G4ThreeVector \<Rightarrow> real" where
  "cosTheta a q = (let ptot2 = mag2 a * mag2 q in
     if ptot2 \<le> 0 then 0
     else (let arg = dot a q / sqrt ptot2 in
           if arg > 1 then 1 else if arg < - 1 then - 1 else arg))"

definition angle :: "G4ThreeVector \<Rightarrow> G4ThreeVector \<Rightarrow> real" where
  "angle a q = arccos (cosTheta a q)"

text \<open>
  \<^verbatim>\<open>v.azimAngle(v2, ref)\<close>: the angle from \<open>v\<close> to \<open>v2\<close> about \<open>ref\<close>, measured between
  the parts of the two vectors perpendicular to \<open>ref\<close>, with the sign of
  \<open>v \<cdot> (v2 \<times> ref)\<close>; \<open>0\<close> when one of the perpendicular parts vanishes.
\<close>

definition azimAngle :: "G4ThreeVector \<Rightarrow> G4ThreeVector \<Rightarrow> G4ThreeVector \<Rightarrow> real" where
  "azimAngle v v2 ref = (let vperp = perpPart v ref in
     if mag2 vperp = 0 then 0
     else (let v2perp = perpPart v2 ref in
       if mag2 v2perp = 0 then 0
       else (let ang = angle vperp v2perp in
         if dot v (cross v2 ref) \<ge> 0 then ang else - ang)))"

text \<open>
  \<^verbatim>\<open>v.rotate(axis, delta)\<close>: the right-handed rotation of \<open>v\<close> by \<open>delta\<close> about
  \<open>axis\<close>; a zero axis leaves \<open>v\<close> as it is.
\<close>

definition rotate_vec :: "G4ThreeVector \<Rightarrow> G4ThreeVector \<Rightarrow> real \<Rightarrow> G4ThreeVector" where
  "rotate_vec v axis delta = (let r1 = mag axis in
     if r1 = 0 then v
     else (let scale = 1 / r1;
               ux = scale * vx axis; uy = scale * vy axis; uz = scale * vz axis;
               cd = cos delta; sd = sin delta; ocd = 1 - cd
           in Vec (vx v * (cd + ocd * ux * ux) + vy v * (ocd * ux * uy - sd * uz)
                     + vz v * (ocd * ux * uz + sd * uy))
                  (vy v * (cd + ocd * uy * uy) + vz v * (ocd * uy * uz - sd * ux)
                     + vx v * (ocd * uy * ux + sd * uz))
                  (vz v * (cd + ocd * uz * uz) + vx v * (ocd * uz * ux - sd * uy)
                     + vy v * (ocd * uz * uy + sd * ux))))"

text \<open>Units of length (CLHEP SystemOfUnits): the millimetre is \<open>1\<close>.\<close>

definition mm :: real where
  "mm = 1"

definition um :: real where
  "um = 1 / 1000"

subsection \<open>G4double with the special values of IEEE arithmetic\<close>

datatype G4double = Fin real | PInf | NInf | NaN

text \<open>
  A sum or a quotient of two finite doubles is the exact real result rounded to a
  double, or to an infinity when it overflows. The rounding is the parameter \<open>rd\<close> of
  the two operations: nothing is assumed of it but what a theorem states.
\<close>

fun dadd :: "(real \<Rightarrow> G4double) \<Rightarrow> G4double \<Rightarrow> G4double \<Rightarrow> G4double" where
  "dadd rd NaN _ = NaN"
| "dadd rd _ NaN = NaN"
| "dadd rd (Fin a) (Fin b) = rd (a + b)"
| "dadd rd PInf NInf = NaN"
| "dadd rd NInf PInf = NaN"
| "dadd rd PInf _ = PInf"
| "dadd rd _ PInf = PInf"
| "dadd rd NInf _ = NInf"
| "dadd rd _ NInf = NInf"

text \<open>
  Division: a finite non-zero value over zero is an infinity of the dividend's sign,
  zero over zero and infinity over infinity are not-a-number.
\<close>

fun ddiv :: "(real \<Rightarrow> G4double) \<Rightarrow> G4double \<Rightarrow> G4double \<Rightarrow> G4double" where
  "ddiv rd NaN _ = NaN"
| "ddiv rd _ NaN = NaN"
| "ddiv rd (Fin a) (Fin b) =
     (if b = 0 then (if a = 0 then NaN else if a > 0 then PInf else NInf) else rd (a / b))"
| "ddiv rd (Fin a) PInf = Fin 0"
| "ddiv rd (Fin a) NInf = Fin 0"
| "ddiv rd PInf (Fin b) = (if b \<ge> 0 then PInf else NInf)"
| "ddiv rd NInf (Fin b) = (if b \<ge> 0 then NInf else PInf)"
| "ddiv rd PInf PInf = NaN"
| "ddiv rd PInf NInf = NaN"
| "ddiv rd NInf PInf = NaN"
| "ddiv rd NInf NInf = NaN"

text \<open>The comparison \<^verbatim>\<open><\<close>: false as soon as one side is not-a-number.\<close>

fun dless :: "G4double \<Rightarrow> G4double \<Rightarrow> bool" where
  "dless NaN _ = False"
| "dless _ NaN = False"
| "dless (Fin a) (Fin b) = (a < b)"
| "dless _ NInf = False"
| "dless PInf _ = False"
| "dless NInf _ = True"
| "dless (Fin a) PInf = True"



subsection \<open>DoReflection, lines 172 to 218: normalisation and choice of the branch\<close>

datatype branch = Decay | Specular | Diffuse

text \<open>
  \<^verbatim>\<open>
  G4double norm = specProb + diffuseProb + downconversionProb;
  specProb /= norm;  diffuseProb /= norm;  downconversionProb /= norm;
  G4double random = G4UniformRand();
  if (random < downconversionProb) { ... return; }
  else if (random < downconversionProb + specProb) { ... "specular" }
  else { ... "diffuse" }
  \<close>
\<close>

definition select_branch ::
  "(real \<Rightarrow> G4double) \<Rightarrow> G4double \<Rightarrow> G4double \<Rightarrow> G4double \<Rightarrow> G4double \<Rightarrow> branch" where
  "select_branch rd specProb0 diffuseProb0 downconversionProb0 random =
     (let norm = dadd rd (dadd rd specProb0 diffuseProb0) downconversionProb0;
          specProb = ddiv rd specProb0 norm;
          diffuseProb = ddiv rd diffuseProb0 norm;
          downconversionProb = ddiv rd downconversionProb0 norm
      in if dless random downconversionProb then Decay
         else if dless random (dadd rd downconversionProb specProb) then Specular
         else Diffuse)"

subsection \<open>What the process reads from its surroundings\<close>

text \<open>
  The collaborators of the process are parameters of the model: the lattice
  (\<^verbatim>\<open>G4CMP::PhononVelocityIsInward(theLattice, mode, k, norm)\<close>), the solid
  (\<^verbatim>\<open>G4VSolid::SurfaceNormal\<close>, \<^verbatim>\<open>G4VSolid::DistanceToIn\<close>), the changes of frame of
  \<^verbatim>\<open>G4CMPProcessUtils\<close>, the surface property with its three probabilities, the
  material property \<^verbatim>\<open>absMinK\<close>, the rounding of the double arithmetic, and the random engine, whose state \<open>'r\<close> is passed
  along explicitly: \<^verbatim>\<open>G4UniformRand()\<close>, \<^verbatim>\<open>G4CMP::LambertReflection(surfNorm)\<close> and the
  anharmonic decay each take the state and return the next one.

  \<^verbatim>\<open>GetEdgePosition\<close> subtracts a vector \<^verbatim>\<open>kPerpV\<close> that it does not declare (its own
  local is named \<^verbatim>\<open>kPerp\<close>), so the name is bound outside the function; its value is the
  parameter \<open>outer_kPerpV\<close>. The \<^verbatim>\<open>solid\<close> of \<^verbatim>\<open>GetEdgePosition\<close> and
  \<^verbatim>\<open>GetReflectionOnEdge\<close> is taken to be the solid of \<^verbatim>\<open>GetReflectedVector\<close>.
\<close>

record 'r env =
  RoundToDouble :: "real \<Rightarrow> G4double"
  PhononVelocityIsInward :: "int \<Rightarrow> G4ThreeVector \<Rightarrow> G4ThreeVector \<Rightarrow> bool"
  SurfaceNormal :: "G4ThreeVector \<Rightarrow> G4ThreeVector"
  DistanceToIn :: "G4ThreeVector \<Rightarrow> G4ThreeVector \<Rightarrow> real"
  GetLocalPosition :: "G4ThreeVector \<Rightarrow> G4ThreeVector"
  RotateToLocalDirection :: "G4ThreeVector \<Rightarrow> G4ThreeVector"
  GetGlobalDirection :: "G4ThreeVector \<Rightarrow> G4ThreeVector"
  RotateToGlobalDirection :: "G4ThreeVector \<Rightarrow> G4ThreeVector"
  outer_kPerpV :: G4ThreeVector
  SpecularReflProb :: "real \<Rightarrow> G4double"
  DiffuseReflProb :: "real \<Rightarrow> G4double"
  AnharmonicReflProb :: "real \<Rightarrow> G4double"
  h_Planck :: real
  absMinK :: real
  Label :: "int \<Rightarrow> string"
  G4UniformRand :: "'r \<Rightarrow> real \<times> 'r"
  LambertReflection :: "G4ThreeVector \<Rightarrow> 'r \<Rightarrow> G4ThreeVector \<times> 'r"
  DoDecay :: "'r \<Rightarrow> 'r"

text \<open>The track: \<^verbatim>\<open>trackInfo->k()\<close>, \<^verbatim>\<open>GetPolarization\<close>, \<^verbatim>\<open>GetKineticEnergy\<close>.\<close>

record G4Track =
  trk_k :: G4ThreeVector
  trk_mode :: int
  trk_kineticEnergy :: real

text \<open>
  The step: \<^verbatim>\<open>G4CMP::GetSurfaceNormal(aStep)\<close>, and what \<^verbatim>\<open>CheckStepBoundary\<close>
  returns and writes to \<^verbatim>\<open>surfacePoint\<close>.
\<close>

record G4Step =
  stp_surfNorm :: G4ThreeVector
  stp_boundaryOK :: bool
  stp_surfacePoint :: G4ThreeVector

datatype G4ExceptionSeverity =
  FatalException | FatalErrorInArgument | RunMustBeAborted | EventMustBeAborted | JustWarning

record G4ExceptionRecord =
  exc_code :: string
  exc_severity :: G4ExceptionSeverity
  exc_description :: string

text \<open>
  The particle change: the proposed position, the wavevector written by
  \<^verbatim>\<open>FillParticleChange\<close> (which also derives the momentum direction from it), the momentum
  directions of the secondaries, whether the track was killed (\<^verbatim>\<open>DoSimpleKill\<close>), and
  the exceptions reported through \<^verbatim>\<open>G4Exception\<close>, oldest first.
\<close>

record G4ParticleChange =
  pc_position :: "G4ThreeVector option"
  pc_waveVector :: "G4ThreeVector option"
  pc_secondaries :: "G4ThreeVector list"
  pc_killed :: bool
  pc_exceptions :: "G4ExceptionRecord list"

definition Initialize :: G4ParticleChange where
  "Initialize = \<lparr>pc_position = None, pc_waveVector = None, pc_secondaries = [],
                  pc_killed = False, pc_exceptions = []\<rparr>"

subsection \<open>AbsorbTrack, lines 127 to 140\<close>

text \<open>
  \<^verbatim>\<open>
  return (G4CMPBoundaryUtils::AbsorbTrack(aTrack,aStep) &&
          fabs(k*G4CMP::GetSurfaceNormal(aStep)) > absMinK);
  \<close>
  The result of the base class's test is the argument \<open>baseAbsorb\<close>.
\<close>

definition AbsorbTrack :: "'r env \<Rightarrow> bool \<Rightarrow> G4Track \<Rightarrow> G4Step \<Rightarrow> bool" where
  "AbsorbTrack e baseAbsorb aTrack aStep =
     (baseAbsorb \<and> \<bar>dot (trk_k aTrack) (stp_surfNorm aStep)\<bar> > absMinK e)"

subsection \<open>GetLambertianVector, lines 409 to 421\<close>

definition maxTries :: nat where
  "maxTries = 1000"

text \<open>
  \<^verbatim>\<open>
  do { reflectedKDir = G4CMP::LambertReflection(surfNorm); }
  while (nTries++ < maxTries && !PhononVelocityIsInward(theLattice, mode, reflectedKDir, surfNorm));
  \<close>
  One call of \<open>LambertianLoop\<close> is one pass of the body followed by the test, entered with
  the current \<open>nTries\<close>. The counter is incremented by every test, so its final
  value, returned with the direction and the state of the random engine, is the number
  of draws made.
\<close>

function LambertianLoop ::
  "'r env \<Rightarrow> G4ThreeVector \<Rightarrow> int \<Rightarrow> nat \<Rightarrow> 'r \<Rightarrow> G4ThreeVector \<times> nat \<times> 'r" where
  "LambertianLoop e surfNorm mode nTries rng =
     (case LambertReflection e surfNorm rng of
        (reflectedKDir, rng') \<Rightarrow>
          if nTries < maxTries \<and> \<not> PhononVelocityIsInward e mode reflectedKDir surfNorm
          then LambertianLoop e surfNorm mode (nTries + 1) rng'
          else (reflectedKDir, nTries + 1, rng'))"
  by pat_completeness auto
termination
  by (relation "measure (\<lambda>(e, surfNorm, mode, nTries, rng). maxTries - nTries)") auto

definition GetLambertianVector ::
  "'r env \<Rightarrow> G4ThreeVector \<Rightarrow> int \<Rightarrow> 'r \<Rightarrow> G4ThreeVector \<times> nat \<times> 'r" where
  "GetLambertianVector e surfNorm mode rng = LambertianLoop e surfNorm mode 0 rng"

subsection \<open>GetEdgePosition and GetReflectionOnEdge, lines 426 to 464\<close>

definition GetEdgePosition :: "'r env \<Rightarrow> G4ThreeVector \<Rightarrow> G4ThreeVector \<Rightarrow> G4ThreeVector" where
  "GetEdgePosition e stepLocalPos waveVector =
     (let currNorm = SurfaceNormal e stepLocalPos;
          kPerpMag = dot waveVector currNorm;
          kPerp = smult kPerpMag currNorm;
          kTan = vsub waveVector (outer_kPerpV e);
          edgePos = vsub stepLocalPos (smult (1 * mm) currNorm);
          surfAdjust = DistanceToIn e edgePos (vneg kTan);
          edgePos = vsub edgePos (smult surfAdjust kTan);
          edgePos = vadd edgePos (smult (1 * mm) currNorm)
      in edgePos)"

definition GetReflectionOnEdge :: "'r env \<Rightarrow> G4ThreeVector \<Rightarrow> G4ThreeVector \<Rightarrow> G4ThreeVector" where
  "GetReflectionOnEdge e stepLocalPos waveVector =
     (let currNorm = SurfaceNormal e stepLocalPos;
          edgePos = vsub stepLocalPos (smult (1 * mm) currNorm);
          newNorm = SurfaceNormal e edgePos;
          kPerp = dot waveVector newNorm;
          reflectedKDir = setMag (vsub waveVector (smult (2 * kPerp) newNorm)) 1
      in reflectedKDir)"

subsection \<open>GetReflectedVector, lines 261 to 404\<close>

text \<open>
  Lines 266 to 268, the law of reflection:
  \<^verbatim>\<open>
  G4ThreeVector reflectedKDir = waveVector.unit();
  G4double kPerp = reflectedKDir * surfNorm;
  (reflectedKDir -= 2.*kPerp*surfNorm).setMag(1.);
  \<close>
\<close>

definition NaiveReflection :: "G4ThreeVector \<Rightarrow> G4ThreeVector \<Rightarrow> G4ThreeVector" where
  "NaiveReflection waveVector surfNorm =
     (let reflectedKDir = unit waveVector;
          kPerp = dot reflectedKDir surfNorm
      in setMag (vsub reflectedKDir (smult (2 * kPerp) surfNorm)) 1)"

text \<open>
  The variables of the surface walk. \<open>w_kPerpMag\<close> is computed once before the loop
  and never assigned again. \<open>w_iterations\<close> is not a variable of the source: it counts
  the passes through the loop body.
\<close>

record walk =
  w_stepLocalPos :: G4ThreeVector
  w_newNorm :: G4ThreeVector
  w_kPerpMag :: real
  w_kPerpV :: G4ThreeVector
  w_kTan :: G4ThreeVector
  w_reflectedKDir :: G4ThreeVector
  w_nAttempts :: nat
  w_iterations :: nat

definition stepSize :: real where
  "stepSize = 1 * um"

definition maxAttempts :: nat where
  "maxAttempts = 1000"

text \<open>Lines 279 to 297: the state with which the loop is entered.\<close>

definition WalkInit :: "'r env \<Rightarrow> G4ThreeVector \<Rightarrow> G4ThreeVector \<Rightarrow> G4ThreeVector \<Rightarrow> walk" where
  "WalkInit e reflectedKDir0 surfNorm surfacePoint =
     (let reflectedKDir = RotateToLocalDirection e reflectedKDir0;
          newNorm = RotateToLocalDirection e surfNorm;
          stepLocalPos = GetLocalPosition e surfacePoint;
          kPerpMag = dot reflectedKDir newNorm;
          kPerpV = smult kPerpMag newNorm;
          kTan = vsub reflectedKDir kPerpV
      in \<lparr>w_stepLocalPos = stepLocalPos, w_newNorm = newNorm, w_kPerpMag = kPerpMag,
          w_kPerpV = kPerpV, w_kTan = kTan, w_reflectedKDir = reflectedKDir,
          w_nAttempts = 0, w_iterations = 0\<rparr>)"

text \<open>
  Lines 320 to 356, one pass through the loop body. The direction assigned from
  \<^verbatim>\<open>GetReflectionOnEdge\<close> in line 335 is assigned again in line 356.
\<close>

definition WalkStep :: "'r env \<Rightarrow> walk \<Rightarrow> walk" where
  "WalkStep e w =
     (let stepLocalPos = vadd (w_stepLocalPos w) (smult stepSize (unit (w_kTan w)));
          oldNorm = w_newNorm w;
          newNorm = SurfaceNormal e stepLocalPos;
          surfAdjust = DistanceToIn e stepLocalPos (vneg newNorm);
          (stepLocalPos, reflectedKDir) =
            (if surfAdjust > 1
             then (let edgePos = GetEdgePosition e stepLocalPos (w_reflectedKDir w)
                   in (edgePos, GetReflectionOnEdge e edgePos (w_reflectedKDir w)))
             else (vsub stepLocalPos (smult surfAdjust newNorm), w_reflectedKDir w));
          axis = unit (cross (w_kPerpV w) (w_kTan w));
          kPerpV = smult (w_kPerpMag w) newNorm;
          phi = azimAngle oldNorm newNorm axis;
          kTan = rotate_vec (w_kTan w) axis phi;
          reflectedKDir = vadd kTan kPerpV
      in w\<lparr>w_stepLocalPos := stepLocalPos, w_newNorm := newNorm, w_kPerpV := kPerpV,
           w_kTan := kTan, w_reflectedKDir := reflectedKDir,
           w_iterations := w_iterations w + 1\<rparr>)"

text \<open>
  \<^verbatim>\<open>
  while (!G4CMP::PhononVelocityIsInward(theLattice, mode,
           GetGlobalDirection(reflectedKDir), GetGlobalDirection(newNorm))
         && nAttempts++ < maxAttempts) { ... }
  \<close>
  The counter is incremented only when the first operand holds, also by the test that
  ends the loop.
\<close>

function SurfaceWalk :: "'r env \<Rightarrow> int \<Rightarrow> walk \<Rightarrow> walk" where
  "SurfaceWalk e mode w =
     (if PhononVelocityIsInward e mode (GetGlobalDirection e (w_reflectedKDir w))
           (GetGlobalDirection e (w_newNorm w))
      then w
      else if w_nAttempts w < maxAttempts
      then SurfaceWalk e mode (WalkStep e (w\<lparr>w_nAttempts := w_nAttempts w + 1\<rparr>))
      else w\<lparr>w_nAttempts := w_nAttempts w + 1\<rparr>)"
  by pat_completeness auto
termination
  by (relation "measure (\<lambda>(e, mode, w). maxAttempts - w_nAttempts w)")
     (auto simp: WalkStep_def Let_def split: prod.splits)

definition GetReflectedVector ::
  "'r env \<Rightarrow> G4ThreeVector \<Rightarrow> G4ThreeVector \<Rightarrow> int \<Rightarrow> G4ThreeVector \<Rightarrow> G4ThreeVector" where
  "GetReflectedVector e waveVector surfNorm mode surfacePoint =
     (let reflectedKDir = NaiveReflection waveVector surfNorm
      in if PhononVelocityIsInward e mode reflectedKDir surfNorm then reflectedKDir
         else RotateToGlobalDirection e
                (w_reflectedKDir (SurfaceWalk e mode (WalkInit e reflectedKDir surfNorm surfacePoint))))"

subsection \<open>DoReflection, lines 143 to 256\<close>

text \<open>
  The warning of lines 233 and 234:
  \<^verbatim>\<open>
  G4Exception(..., "Boundary010", JustWarning,
    ("Phonon "+refltype+" reflection failed"+"\nPhonon mode at time of death: "
     +G4PhononPolarization::Label(mode)).c_str());
  \<close>
\<close>

definition Boundary010 :: "'r env \<Rightarrow> string \<Rightarrow> int \<Rightarrow> G4ExceptionRecord" where
  "Boundary010 e refltype mode =
     \<lparr>exc_code = ''Boundary010'', exc_severity = JustWarning,
      exc_description = ''Phonon '' @ refltype @ '' reflection failed'' @ [CHR 0x0A]
         @ ''Phonon mode at time of death: '' @ Label e mode\<rparr>"

text \<open>
  The decay branch returns in line 211, before the test of line 232. Of the two
  secondaries made by \<^verbatim>\<open>anharmonicDecay->DoDecay\<close> the model keeps the momentum
  directions, which lines 208 and 209 overwrite.
\<close>

definition DoReflection ::
  "'r env \<Rightarrow> G4Track \<Rightarrow> G4Step \<Rightarrow> G4ParticleChange \<Rightarrow> 'r \<Rightarrow> G4ParticleChange \<times> 'r" where
  "DoReflection e aTrack aStep particleChange0 rng0 =
     (let waveVector = trk_k aTrack;
          mode = trk_mode aTrack;
          surfNorm = stp_surfNorm aStep;
          surfacePoint = stp_surfacePoint aStep;
          particleChange =
            (if \<not> stp_boundaryOK aStep
             then particleChange0\<lparr>pc_position := Some surfacePoint\<rparr> else particleChange0);
          freq = trk_kineticEnergy aTrack / h_Planck e;
          specProb = SpecularReflProb e freq;
          diffuseProb = DiffuseReflProb e freq;
          downconversionProb = AnharmonicReflProb e freq;
          (random, rng) = G4UniformRand e rng0;
          chosen = select_branch (RoundToDouble e) specProb diffuseProb downconversionProb
                     (Fin random)
      in if chosen = Decay
         then (case GetLambertianVector e surfNorm mode (DoDecay e rng) of
                 (vec1, n1, rng1) \<Rightarrow>
                   (case GetLambertianVector e surfNorm mode rng1 of
                      (vec2, n2, rng2) \<Rightarrow>
                        (particleChange\<lparr>pc_secondaries := [vec1, vec2]\<rparr>, rng2)))
         else (let (reflectedKDir, refltype, rng) =
                     (if chosen = Specular
                      then (GetReflectedVector e waveVector surfNorm mode surfacePoint,
                            ''specular'', rng)
                      else (case GetLambertianVector e surfNorm mode rng of
                              (vec, n, rng1) \<Rightarrow> (vec, ''diffuse'', rng1)));
                    particleChange = particleChange\<lparr>pc_waveVector := Some reflectedKDir\<rparr>
               in if \<not> PhononVelocityIsInward e mode reflectedKDir surfNorm
                  then (particleChange\<lparr>pc_exceptions :=
                            pc_exceptions particleChange @ [Boundary010 e refltype mode],
                          pc_killed := True\<rparr>, rng)
                  else (particleChange, rng)))"

declare LambertianLoop.simps [simp del] SurfaceWalk.simps [simp del]

subsection \<open>The sequence of Lambertian draws\<close>

text \<open>
  \<open>draw_state e n k rng\<close> is the state of the random engine after \<open>k\<close> calls of
  \<^verbatim>\<open>LambertReflection(n)\<close> from the state \<open>rng\<close>, and \<open>nth_draw e n k rng\<close> the direction
  that the next call returns: the draws are numbered from \<open>0\<close>.
\<close>

fun draw_state :: "'r env \<Rightarrow> G4ThreeVector \<Rightarrow> nat \<Rightarrow> 'r \<Rightarrow> 'r" where
  "draw_state e n 0 rng = rng"
| "draw_state e n (Suc k) rng = draw_state e n k (snd (LambertReflection e n rng))"

definition nth_draw :: "'r env \<Rightarrow> G4ThreeVector \<Rightarrow> nat \<Rightarrow> 'r \<Rightarrow> G4ThreeVector" where
  "nth_draw e n k rng = fst (LambertReflection e n (draw_state e n k rng))"

subsection \<open>The caller of AbsorbTrack and DoReflection\<close>

text \<open>
  Modelled from the spec: \<^verbatim>\<open>G4CMPBoundaryUtils::ApplyBoundaryAction\<close>, which
  \<^verbatim>\<open>PostStepDoIt\<close> calls in line 120 and which is defined in another file of the
  library. Section 4.1, step 5: absorption is evaluated upstream of the selector; if the
  track is absorbed, the selector is never invoked for that collision.
\<close>

datatype 'r boundary_action = Absorption | Reflection "G4ParticleChange \<times> 'r"

definition ApplyBoundaryAction ::
  "'r env \<Rightarrow> bool \<Rightarrow> G4Track \<Rightarrow> G4Step \<Rightarrow> G4ParticleChange \<Rightarrow> 'r \<Rightarrow> 'r boundary_action" where
  "ApplyBoundaryAction e baseAbsorb aTrack aStep particleChange rng =
     (if AbsorbTrack e baseAbsorb aTrack aStep then Absorption
      else Reflection (DoReflection e aTrack aStep particleChange rng))"

subsection \<open>A concrete surrounding\<close>

text \<open>
  An anisotropic lattice: the group velocity of the wavevector \<open>k\<close> is \<open>M k\<close> for the
  symmetric positive definite matrix \<open>M\<close> with rows \<open>(1, 0, 4/5)\<close>, \<open>(0, 1, 0)\<close> and
  \<open>(4/5, 0, 1)\<close>, and a direction is inward when its group velocity has a negative
  component along the outward normal.
\<close>

definition MapKtoVDir :: "G4ThreeVector \<Rightarrow> G4ThreeVector" where
  "MapKtoVDir k = Vec (vx k + 4/5 * vz k) (vy k) (vz k + 4/5 * vx k)"

definition velocity_inward :: "int \<Rightarrow> G4ThreeVector \<Rightarrow> G4ThreeVector \<Rightarrow> bool" where
  "velocity_inward mode k n = (dot (MapKtoVDir k) n < 0)"

text \<open>
  A solid with a step: the face \<open>z = 0\<close> with outward normal \<open>(0,0,1)\<close> for \<open>x \<le> 0\<close>, and
  beyond it a wall with outward normal \<open>(-1,0,0)\<close>.
\<close>

definition step_normal :: "G4ThreeVector \<Rightarrow> G4ThreeVector" where
  "step_normal p = (if vx p > 0 then Vec (- 1) 0 0 else Vec 0 0 1)"

text \<open>
  The state of the random engine is the number of values drawn so far; the uniform
  draw is always \<open>1/2\<close>, and the Lambertian draw is \<open>(0, 0, 1)\<close> while fewer than three
  values have been drawn and \<open>(0, 0, -1)\<close> from then on. The local frame is the global
  frame, the surface is specular. The probabilities used with this surrounding are 0
  and 1, whose sums and quotients are doubles, so the rounding returns them as they are.
\<close>

definition example_env :: "nat env" where
  "example_env =
     \<lparr>RoundToDouble = Fin,
      PhononVelocityIsInward = velocity_inward,
      SurfaceNormal = step_normal,
      DistanceToIn = (\<lambda>p d. 0),
      GetLocalPosition = (\<lambda>p. p),
      RotateToLocalDirection = (\<lambda>d. d),
      GetGlobalDirection = (\<lambda>d. d),
      RotateToGlobalDirection = (\<lambda>d. d),
      outer_kPerpV = Vec 0 0 0,
      SpecularReflProb = (\<lambda>f. Fin 1),
      DiffuseReflProb = (\<lambda>f. Fin 0),
      AnharmonicReflProb = (\<lambda>f. Fin 0),
      h_Planck = 1,
      absMinK = 0,
      Label = (\<lambda>mode. if mode = 0 then ''L'' else if mode = 1 then ''TS'' else ''TF''),
      G4UniformRand = (\<lambda>r. (1/2, Suc r)),
      LambertReflection = (\<lambda>n r. (if r < 3 then Vec 0 0 1 else Vec 0 0 (- 1), Suc r)),
      DoDecay = (\<lambda>r. Suc r)\<rparr>"

text \<open>The same with a lattice in which no direction is inward.\<close>

definition never_inward_env :: "nat env" where
  "never_inward_env = example_env\<lparr>PhononVelocityIsInward := (\<lambda>mode k n. False)\<rparr>"

text \<open>The same with an isotropic lattice: the group velocity is parallel to the wavevector.\<close>

definition isotropic_env :: "nat env" where
  "isotropic_env = example_env\<lparr>PhononVelocityIsInward := (\<lambda>mode k n. dot k n < 0)\<rparr>"

text \<open>
  The lattice in which no direction is inward, with a Lambertian draw that is
  \<open>(0, 0, 1)\<close> for the first 1000 draws and \<open>(0, 0, -1)\<close> from then on.
\<close>

definition budget_env :: "nat env" where
  "budget_env = never_inward_env\<lparr>LambertReflection :=
     (\<lambda>n r. (if r < 1000 then Vec 0 0 1 else Vec 0 0 (- 1), Suc r))\<rparr>"

text \<open>A track arriving at the origin of the face \<open>z = 0\<close> with wavevector \<open>(4/5, 0, 3/5)\<close>.\<close>

definition example_track :: G4Track where
  "example_track = \<lparr>trk_k = Vec (4/5) 0 (3/5), trk_mode = 0, trk_kineticEnergy = 1\<rparr>"

definition example_step :: G4Step where
  "example_step = \<lparr>stp_surfNorm = Vec 0 0 1, stp_boundaryOK = True,
                    stp_surfacePoint = Vec 0 0 0\<rparr>"

text \<open>The same with a surface whose three probabilities are all zero.\<close>

definition zero_prob_env :: "nat env" where
  "zero_prob_env = example_env\<lparr>SpecularReflProb := (\<lambda>f. Fin 0)\<rparr>"

text \<open>A surface that always converts down, in the lattice in which no direction is inward.\<close>

definition decay_env :: "nat env" where
  "decay_env = never_inward_env\<lparr>SpecularReflProb := (\<lambda>f. Fin 0),
                                  AnharmonicReflProb := (\<lambda>f. Fin 1)\<rparr>"

text \<open>
  The state with which the surface walk of the track above is entered: the law of
  reflection gives \<open>(4/5, 0, -3/5)\<close>, whose group velocity is not inward.
\<close>

definition example_walk :: walk where
  "example_walk =
     \<lparr>w_stepLocalPos = Vec 0 0 0, w_newNorm = Vec 0 0 1, w_kPerpMag = - (3/5),
      w_kPerpV = Vec 0 0 (- (3/5)), w_kTan = Vec (4/5) 0 0,
      w_reflectedKDir = Vec (4/5) 0 (- (3/5)), w_nAttempts = 0, w_iterations = 0\<rparr>"

subsection \<open>A solid with one edge\<close>

text \<open>
  The solid \<open>z \<le> 0\<close>, \<open>a x + b z \<le> 0\<close> for a unit vector \<open>(a, 0, b)\<close> with \<open>a > 0\<close>: the face
  \<open>z = 0\<close> with outward normal \<open>(0,0,1)\<close> ends at the edge \<open>x = 0\<close>, where the face
  \<open>a x + b z = 0\<close> with outward normal \<open>(a, 0, b)\<close> begins. With \<open>(a, b) = (1, 0)\<close> the two
  faces are perpendicular as at the edge of a box; with \<open>(a, b) = (3/5, -4/5)\<close> the second
  face runs back under the first. The normal is that of the first face on and above its
  plane and that of the second face below it. The distance is the one at which the ray
  from a point outside the second face's half space meets that face, and \<^verbatim>\<open>kInfinity\<close>
  when it does not meet it. The vector \<^verbatim>\<open>kPerpV\<close> is the part of the direction
  \<open>(4/5, 0, -3/5)\<close> along the first normal.
\<close>

definition kInfinity :: real where
  "kInfinity = 9 * 10 ^ 99"

definition corner_normal :: "real \<Rightarrow> real \<Rightarrow> G4ThreeVector \<Rightarrow> G4ThreeVector" where
  "corner_normal a b p = (if vz p \<ge> 0 then Vec 0 0 1 else Vec a 0 b)"

definition corner_distance :: "real \<Rightarrow> real \<Rightarrow> G4ThreeVector \<Rightarrow> G4ThreeVector \<Rightarrow> real" where
  "corner_distance a b p v =
     (let outside = a * vx p + b * vz p; approach = - (a * vx v + b * vz v)
      in if outside > 0 \<and> approach > 0 \<and> vz p + (outside / approach) * vz v \<le> 0
         then outside / approach else kInfinity)"

definition corner_env :: "real \<Rightarrow> real \<Rightarrow> nat env" where
  "corner_env a b = example_env\<lparr>SurfaceNormal := corner_normal a b,
                                 DistanceToIn := corner_distance a b,
                                 outer_kPerpV := Vec 0 0 (- (3/5))\<rparr>"

subsection \<open>The branch that DoReflection takes\<close>

text \<open>
  The value of \<open>chosen\<close> in \<open>DoReflection\<close>, as a function of the surroundings, the track
  and the state of the random engine at the call.
\<close>

definition chosen_branch :: "'r env \<Rightarrow> G4Track \<Rightarrow> 'r \<Rightarrow> branch" where
  "chosen_branch e aTrack rng0 =
     (let freq = trk_kineticEnergy aTrack / h_Planck e
      in select_branch (RoundToDouble e) (SpecularReflProb e freq) (DiffuseReflProb e freq)
           (AnharmonicReflProb e freq) (Fin (fst (G4UniformRand e rng0))))"

section \<open>Theorems\<close>

subsection \<open>The choice of the branch\<close>







subsection \<open>The law of reflection\<close>

lemma mag_one_iff: "mag a = 1 \<longleftrightarrow> mag2 a = 1"
  by (simp add: mag_def)

lemma unit_of_unit: "mag2 a = 1 \<Longrightarrow> unit a = a"
  by (cases a) (simp add: unit_def smult_def)

lemma setMag_of_unit: "mag2 a = 1 \<Longrightarrow> setMag a 1 = a"
  by (cases a) (simp add: setMag_def mag_def smult_def)

lemma mag2_reflect:
  "mag2 n = 1 \<Longrightarrow> mag2 (vsub k (smult (2 * dot k n) n)) = mag2 k"
proof -
  assume n: "mag2 n = 1"
  have "mag2 (vsub k (smult (2 * dot k n) n))
        = mag2 k - 4 * dot k n * dot k n + 4 * dot k n * dot k n * mag2 n"
    by (simp add: mag2_def vsub_def smult_def dot_def algebra_simps)
  then show ?thesis using n by simp
qed

lemma dot_reflect:
  "mag2 n = 1 \<Longrightarrow> dot (vsub k (smult (2 * dot k n) n)) n = - dot k n"
proof -
  assume n: "mag2 n = 1"
  have "dot (vsub k (smult (2 * dot k n) n)) n = dot k n - 2 * dot k n * mag2 n"
    by (simp add: mag2_def vsub_def smult_def dot_def algebra_simps)
  then show ?thesis using n by simp
qed

lemma NaiveReflection_of_units:
  "mag2 k = 1 \<Longrightarrow> mag2 n = 1 \<Longrightarrow> NaiveReflection k n = vsub k (smult (2 * dot k n) n)"
  by (simp add: NaiveReflection_def Let_def unit_of_unit setMag_of_unit mag2_reflect)

lemma unit_101: "unit (Vec 1 0 1) = Vec (1 / sqrt 2) 0 (1 / sqrt 2)"
  by (simp add: unit_def mag2_def smult_def)

lemma unit_10m1: "unit (Vec 1 0 (- 1)) = Vec (1 / sqrt 2) 0 (- (1 / sqrt 2))"
  by (simp add: unit_def mag2_def smult_def)

text \<open>
  Claim C5. For a unit wavevector \<open>k\<close> and a unit normal \<open>n\<close> the direction of lines 266
  to 268 has magnitude 1 and its component along the normal is that of \<open>k\<close> with the
  sign reversed (whatever the sign of \<open>k \<cdot> n\<close>); the wavevector \<open>(1,0,1)\<close> normalised and
  the normal \<open>(0,0,1)\<close> give \<open>(1,0,-1)\<close> normalised.
\<close>

theorem NaiveReflection_law:
  "(mag k = 1 \<and> mag n = 1 \<longrightarrow>
      mag (NaiveReflection k n) = 1 \<and> dot (NaiveReflection k n) n = - dot k n)
   \<and> NaiveReflection (unit (Vec 1 0 1)) (Vec 0 0 1) = unit (Vec 1 0 (- 1))"
proof -
  have general: "mag (NaiveReflection k n) = 1 \<and> dot (NaiveReflection k n) n = - dot k n"
    if "mag k = 1" "mag n = 1"
  proof -
    from that have kn: "mag2 k = 1" "mag2 n = 1" by (simp_all add: mag_one_iff)
    then show ?thesis
      by (simp add: NaiveReflection_of_units mag_one_iff mag2_reflect dot_reflect)
  qed
  have k: "mag2 (Vec (1 / sqrt 2) 0 (1 / sqrt 2)) = 1"
    by (simp add: mag2_def)
  have n: "mag2 (Vec 0 0 1) = 1" by (simp add: mag2_def)
  have scenario: "NaiveReflection (unit (Vec 1 0 1)) (Vec 0 0 1) = unit (Vec 1 0 (- 1))"
    unfolding unit_101 unit_10m1 NaiveReflection_of_units [OF k n]
    by (simp add: vsub_def smult_def dot_def)
  from general scenario show ?thesis by blast
qed

text \<open>The theorem at the wavevector \<open>(3/5, 0, 4/5)\<close> and the normal \<open>(0, 0, 1)\<close>.\<close>

theorem NaiveReflection_law_witness:
  "mag (Vec (3/5) 0 (4/5)) = 1 \<and> mag (Vec 0 0 1) = 1
   \<and> mag (NaiveReflection (Vec (3/5) 0 (4/5)) (Vec 0 0 1)) = 1
   \<and> dot (NaiveReflection (Vec (3/5) 0 (4/5)) (Vec 0 0 1)) (Vec 0 0 1) = - (4/5)"
proof -
  have k: "mag (Vec (3/5) 0 (4/5)) = 1" by (simp add: mag_def mag2_def)
  have n: "mag (Vec 0 0 1) = 1" by (simp add: mag_def mag2_def)
  have d: "dot (Vec (3/5) 0 (4/5)) (Vec 0 0 1) = 4/5" by (simp add: dot_def)
  from NaiveReflection_law [of "Vec (3/5) 0 (4/5)" "Vec 0 0 1"] k n d show ?thesis by simp
qed

text \<open>
  In an isotropic lattice a unit wavevector that arrives with a positive component along
  the unit normal is reflected by the law of reflection alone: the result is inward and
  the surface walk is not entered.
\<close>

theorem isotropic_no_correction:
  "PhononVelocityIsInward e = (\<lambda>mode k n. dot k n < 0) \<Longrightarrow>
   mag waveVector = 1 \<Longrightarrow> mag surfNorm = 1 \<Longrightarrow> 0 < dot waveVector surfNorm \<Longrightarrow>
     GetReflectedVector e waveVector surfNorm mode surfacePoint
       = NaiveReflection waveVector surfNorm
     \<and> PhononVelocityIsInward e mode
          (GetReflectedVector e waveVector surfNorm mode surfacePoint) surfNorm"
proof -
  assume iso: "PhononVelocityIsInward e = (\<lambda>mode k n. dot k n < 0)"
    and k: "mag waveVector = 1" and n: "mag surfNorm = 1"
    and pos: "0 < dot waveVector surfNorm"
  from k n have kn: "mag2 waveVector = 1" "mag2 surfNorm = 1"
    by (simp_all add: mag_one_iff)
  have "dot (NaiveReflection waveVector surfNorm) surfNorm = - dot waveVector surfNorm"
    using kn by (simp add: NaiveReflection_of_units dot_reflect)
  with pos iso
  have inw: "PhononVelocityIsInward e mode (NaiveReflection waveVector surfNorm) surfNorm"
    by simp
  then show ?thesis
    by (simp add: GetReflectedVector_def Let_def)
qed

text \<open>The theorem at the wavevector \<open>(3/5, 0, 4/5)\<close> and the normal \<open>(0, 0, 1)\<close>.\<close>

theorem isotropic_no_correction_witness:
  "PhononVelocityIsInward isotropic_env = (\<lambda>mode k n. dot k n < 0)
   \<and> mag (Vec (3/5) 0 (4/5)) = 1 \<and> mag (Vec 0 0 1) = 1
   \<and> 0 < dot (Vec (3/5) 0 (4/5)) (Vec 0 0 1)
   \<and> GetReflectedVector isotropic_env (Vec (3/5) 0 (4/5)) (Vec 0 0 1) 0 (Vec 0 0 0)
       = NaiveReflection (Vec (3/5) 0 (4/5)) (Vec 0 0 1)"
proof -
  have iso: "PhononVelocityIsInward isotropic_env = (\<lambda>mode k n. dot k n < 0)"
    by (simp add: isotropic_env_def)
  have k: "mag (Vec (3/5) 0 (4/5)) = 1" by (simp add: mag_def mag2_def)
  have n: "mag (Vec 0 0 1) = 1" by (simp add: mag_def mag2_def)
  have pos: "0 < dot (Vec (3/5) 0 (4/5)) (Vec 0 0 1)" by (simp add: dot_def)
  from isotropic_no_correction [OF iso k n pos, of 0 "Vec 0 0 0"] iso k n pos
  show ?thesis by blast
qed

subsection \<open>The two loops\<close>

lemma nth_draw_0: "nth_draw e n 0 rng = fst (LambertReflection e n rng)"
  by (simp add: nth_draw_def)

lemma nth_draw_Suc:
  "nth_draw e n (Suc k) rng = nth_draw e n k (snd (LambertReflection e n rng))"
  by (simp add: nth_draw_def)

text \<open>
  The rejection loop entered with the counter \<open>i\<close>: it returns the draw \<open>j\<close> counted from
  the state at entry, every earlier draw was tested and failed, and the draw returned
  passed the test unless the counter had reached \<open>maxTries\<close>.
\<close>

lemma LambertianLoop_char:
  "LambertianLoop e n mode i rng = (d, m, rng') \<Longrightarrow>
   \<exists>j. m = i + j + 1 \<and> d = nth_draw e n j rng \<and> rng' = draw_state e n (Suc j) rng
     \<and> (\<forall>k<j. i + k < maxTries \<and> \<not> PhononVelocityIsInward e mode (nth_draw e n k rng) n)
     \<and> (i + j < maxTries \<longrightarrow> PhononVelocityIsInward e mode d n)"
proof (induction e n mode i rng arbitrary: d m rng' rule: LambertianLoop.induct)
  case (1 e n mode i rng)
  obtain d0 rng0 where L: "LambertReflection e n rng = (d0, rng0)"
    by (cases "LambertReflection e n rng")
  show ?case
  proof (cases "i < maxTries \<and> \<not> PhononVelocityIsInward e mode d0 n")
    case True
    with L "1.prems" have "LambertianLoop e n mode (i + 1) rng0 = (d, m, rng')"
      by (simp add: LambertianLoop.simps [of e n mode i rng])
    from "1.IH" [OF L [symmetric] True this]
    obtain j where j: "m = i + 1 + j + 1" "d = nth_draw e n j rng0"
      "rng' = draw_state e n (Suc j) rng0"
      "\<forall>k<j. i + 1 + k < maxTries \<and> \<not> PhononVelocityIsInward e mode (nth_draw e n k rng0) n"
      "i + 1 + j < maxTries \<longrightarrow> PhononVelocityIsInward e mode d n"
      by blast
    have earlier: "i + k < maxTries \<and> \<not> PhononVelocityIsInward e mode (nth_draw e n k rng) n"
      if "k < Suc j" for k
    proof (cases k)
      case 0
      with True L show ?thesis by (simp add: nth_draw_0)
    next
      case (Suc k')
      with that j(4) L show ?thesis by (simp add: nth_draw_Suc)
    qed
    show ?thesis
      apply (rule exI [of _ "Suc j"])
      using j L earlier by (simp add: nth_draw_Suc)
  next
    case False
    with L "1.prems" have "d = d0" "m = i + 1" "rng' = rng0"
      by (simp_all add: LambertianLoop.simps [of e n mode i rng])
    with False L show ?thesis
      by (intro exI [of _ 0]) (auto simp: nth_draw_0)
  qed
qed

lemma GetLambertianVector_char:
  assumes "GetLambertianVector e n mode rng = (d, m, rng')"
  shows "1 \<le> m" "m \<le> 1001" "d = nth_draw e n (m - 1) rng" "rng' = draw_state e n m rng"
    "\<forall>k < m - 1. \<not> PhononVelocityIsInward e mode (nth_draw e n k rng) n"
    "m \<le> 1000 \<longrightarrow> PhononVelocityIsInward e mode d n"
proof -
  from assms LambertianLoop_char [of e n mode 0 rng d m rng']
  obtain j where j: "m = j + 1" "d = nth_draw e n j rng" "rng' = draw_state e n (Suc j) rng"
      "\<forall>k<j. k < maxTries \<and> \<not> PhononVelocityIsInward e mode (nth_draw e n k rng) n"
      "j < maxTries \<longrightarrow> PhononVelocityIsInward e mode d n"
    by (auto simp: GetLambertianVector_def)
  have "j \<le> maxTries"
  proof (rule ccontr)
    assume "\<not> j \<le> maxTries"
    then have "maxTries < j" by simp
    with j(4) show False by blast
  qed
  with j show "1 \<le> m" "m \<le> 1001" "d = nth_draw e n (m - 1) rng" "rng' = draw_state e n m rng"
    "\<forall>k < m - 1. \<not> PhononVelocityIsInward e mode (nth_draw e n k rng) n"
    "m \<le> 1000 \<longrightarrow> PhononVelocityIsInward e mode d n"
    by (simp_all add: maxTries_def)
qed

lemma WalkStep_nAttempts: "w_nAttempts (WalkStep e w) = w_nAttempts w"
  by (simp add: WalkStep_def Let_def split: prod.splits)

lemma WalkStep_iterations: "w_iterations (WalkStep e w) = w_iterations w + 1"
  by (simp add: WalkStep_def Let_def split: prod.splits)

text \<open>
  The surface walk: the passes through the body are as many as the counter has grown,
  except that the test that ends an exhausted walk increments the counter once more.
\<close>

lemma SurfaceWalk_counters:
  "w_nAttempts w \<le> maxAttempts \<Longrightarrow>
     w_iterations (SurfaceWalk e mode w) - w_iterations w
       = min (w_nAttempts (SurfaceWalk e mode w)) maxAttempts - w_nAttempts w
   \<and> w_iterations w \<le> w_iterations (SurfaceWalk e mode w)
   \<and> w_nAttempts w \<le> w_nAttempts (SurfaceWalk e mode w)
   \<and> w_nAttempts (SurfaceWalk e mode w) \<le> maxAttempts + 1"
proof (induction e mode w rule: SurfaceWalk.induct)
  case (1 e mode w)
  show ?case
  proof (cases "PhononVelocityIsInward e mode (GetGlobalDirection e (w_reflectedKDir w))
           (GetGlobalDirection e (w_newNorm w))")
    case True
    with "1.prems" show ?thesis by (simp add: SurfaceWalk.simps [of e mode w])
  next
    case notin: False
    show ?thesis
    proof (cases "w_nAttempts w < maxAttempts")
      case True
      let ?w1 = "WalkStep e (w\<lparr>w_nAttempts := w_nAttempts w + 1\<rparr>)"
      have eq: "SurfaceWalk e mode w = SurfaceWalk e mode ?w1"
        using notin True by (simp add: SurfaceWalk.simps [of e mode w])
      have n1: "w_nAttempts ?w1 = w_nAttempts w + 1" by (simp add: WalkStep_nAttempts)
      have i1: "w_iterations ?w1 = w_iterations w + 1" by (simp add: WalkStep_iterations)
      from True n1 have "w_nAttempts ?w1 \<le> maxAttempts" by simp
      from "1.IH" [OF notin True this] n1 i1 True show ?thesis
        unfolding eq by (auto simp: min_def split: if_splits)
    next
      case False
      with notin "1.prems" show ?thesis by (simp add: SurfaceWalk.simps [of e mode w])
    qed
  qed
qed

lemma SurfaceWalk_exit:
  "PhononVelocityIsInward e mode (GetGlobalDirection e (w_reflectedKDir (SurfaceWalk e mode w)))
           (GetGlobalDirection e (w_newNorm (SurfaceWalk e mode w)))
   \<or> w_nAttempts (SurfaceWalk e mode w) > maxAttempts"
proof (induction e mode w rule: SurfaceWalk.induct)
  case (1 e mode w)
  then show ?case
    by (simp add: SurfaceWalk.simps [of e mode w])
qed

lemma WalkStep_direction:
  "w_reflectedKDir (WalkStep e w)
     = vadd (rotate_vec (w_kTan w) (unit (cross (w_kPerpV w) (w_kTan w)))
               (azimAngle (w_newNorm w)
                  (SurfaceNormal e (vadd (w_stepLocalPos w) (smult stepSize (unit (w_kTan w)))))
                  (unit (cross (w_kPerpV w) (w_kTan w)))))
            (smult (w_kPerpMag w)
               (SurfaceNormal e (vadd (w_stepLocalPos w) (smult stepSize (unit (w_kTan w))))))"
  by (simp add: WalkStep_def Let_def case_prod_beta)

subsection \<open>DoReflection, branch by branch\<close>

lemma DoReflection_Decay:
  "chosen_branch e aTrack rng0 = Decay \<Longrightarrow>
   DoReflection e aTrack aStep pc0 rng0 =
     (let r1 = GetLambertianVector e (stp_surfNorm aStep) (trk_mode aTrack)
                 (DoDecay e (snd (G4UniformRand e rng0)));
          r2 = GetLambertianVector e (stp_surfNorm aStep) (trk_mode aTrack) (snd (snd r1))
      in ((if \<not> stp_boundaryOK aStep then pc0\<lparr>pc_position := Some (stp_surfacePoint aStep)\<rparr>
           else pc0)\<lparr>pc_secondaries := [fst r1, fst r2]\<rparr>, snd (snd r2)))"
  by (simp add: DoReflection_def chosen_branch_def Let_def case_prod_beta)

lemma DoReflection_Specular:
  "chosen_branch e aTrack rng0 = Specular \<Longrightarrow>
   DoReflection e aTrack aStep pc0 rng0 =
     (let dir = GetReflectedVector e (trk_k aTrack) (stp_surfNorm aStep) (trk_mode aTrack)
                  (stp_surfacePoint aStep);
          pc1 = (if \<not> stp_boundaryOK aStep
                 then pc0\<lparr>pc_position := Some (stp_surfacePoint aStep)\<rparr>
                 else pc0)\<lparr>pc_waveVector := Some dir\<rparr>
      in if PhononVelocityIsInward e (trk_mode aTrack) dir (stp_surfNorm aStep)
         then (pc1, snd (G4UniformRand e rng0))
         else (pc1\<lparr>pc_exceptions := pc_exceptions pc0
                      @ [Boundary010 e ''specular'' (trk_mode aTrack)],
                    pc_killed := True\<rparr>, snd (G4UniformRand e rng0)))"
  by (simp add: DoReflection_def chosen_branch_def Let_def case_prod_beta)

lemma DoReflection_Diffuse:
  "chosen_branch e aTrack rng0 = Diffuse \<Longrightarrow>
   DoReflection e aTrack aStep pc0 rng0 =
     (let r = GetLambertianVector e (stp_surfNorm aStep) (trk_mode aTrack)
                (snd (G4UniformRand e rng0));
          pc1 = (if \<not> stp_boundaryOK aStep
                 then pc0\<lparr>pc_position := Some (stp_surfacePoint aStep)\<rparr>
                 else pc0)\<lparr>pc_waveVector := Some (fst r)\<rparr>
      in if PhononVelocityIsInward e (trk_mode aTrack) (fst r) (stp_surfNorm aStep)
         then (pc1, snd (snd r))
         else (pc1\<lparr>pc_exceptions := pc_exceptions pc0
                      @ [Boundary010 e ''diffuse'' (trk_mode aTrack)],
                    pc_killed := True\<rparr>, snd (snd r)))"
  by (simp add: DoReflection_def chosen_branch_def Let_def case_prod_beta)

lemma DoReflection_exceptions:
  "set (pc_exceptions (fst (DoReflection e aTrack aStep pc0 rng0)))
     \<subseteq> set (pc_exceptions pc0)
       \<union> {Boundary010 e ''specular'' (trk_mode aTrack), Boundary010 e ''diffuse'' (trk_mode aTrack)}"
proof (cases "chosen_branch e aTrack rng0")
  case Decay
  then show ?thesis by (auto simp: DoReflection_Decay Let_def)
next
  case Specular
  then show ?thesis by (auto simp: DoReflection_Specular Let_def)
next
  case Diffuse
  then show ?thesis by (auto simp: DoReflection_Diffuse Let_def)
qed

subsection \<open>The concrete surrounding, evaluated\<close>

lemmas vec_defs = vadd_def vsub_def vneg_def smult_def dot_def cross_def mag2_def

lemma sqrt_16_25: "sqrt (16/25) = 4/5"
  by (rule real_sqrt_unique) (simp_all add: power2_eq_square)

lemma sqrt_144_625: "sqrt (144/625) = 12/25"
  by (rule real_sqrt_unique) (simp_all add: power2_eq_square)

lemma example_naive:
  "NaiveReflection (Vec (4/5) 0 (3/5)) (Vec 0 0 1) = Vec (4/5) 0 (- (3/5))"
  by (simp add: NaiveReflection_def Let_def unit_def setMag_def mag_def vec_defs)

lemma example_naive_outward:
  "\<not> velocity_inward mode (Vec (4/5) 0 (- (3/5))) (Vec 0 0 1)"
  by (simp add: velocity_inward_def MapKtoVDir_def vec_defs)

lemma example_azimAngle:
  "azimAngle (Vec 0 0 1) (Vec (- 1) 0 0) (Vec 0 (- 1) 0) = pi / 2"
  by (simp add: azimAngle_def Let_def perpPart_def project_def angle_def cosTheta_def vec_defs)

lemma example_rotate:
  "rotate_vec (Vec (4/5) 0 0) (Vec 0 (- 1) 0) (pi / 2) = Vec 0 0 (4/5)"
  by (simp add: rotate_vec_def Let_def mag_def vec_defs)

lemma example_axis:
  "unit (cross (Vec 0 0 (- (3/5))) (Vec (4/5) 0 0)) = Vec 0 (- 1) 0"
  by (simp add: unit_def Let_def vec_defs sqrt_144_625)

lemma example_unit_kTan: "unit (Vec (4/5) 0 0) = Vec 1 0 0"
  by (simp add: unit_def Let_def vec_defs sqrt_16_25)

lemma example_WalkInit:
  "WalkInit example_env (Vec (4/5) 0 (- (3/5))) (Vec 0 0 1) (Vec 0 0 0) = example_walk"
  by (simp add: WalkInit_def Let_def example_env_def vec_defs example_walk_def)

lemma example_WalkStep:
  "WalkStep example_env (example_walk\<lparr>w_nAttempts := 1\<rparr>) = 
     \<lparr>w_stepLocalPos = Vec (1/1000) 0 0, w_newNorm = Vec (- 1) 0 0, w_kPerpMag = - (3/5),
          w_kPerpV = Vec (3/5) 0 0, w_kTan = Vec 0 0 (4/5), w_reflectedKDir = Vec (3/5) 0 (4/5),
          w_nAttempts = 1, w_iterations = 1\<rparr>"
  by (simp add: WalkStep_def Let_def example_env_def example_walk_def example_unit_kTan example_axis
        step_normal_def stepSize_def um_def example_azimAngle example_rotate)
     (simp add: vec_defs)

lemma example_SurfaceWalk:
  "SurfaceWalk example_env mode example_walk = 
     \<lparr>w_stepLocalPos = Vec (1/1000) 0 0, w_newNorm = Vec (- 1) 0 0, w_kPerpMag = - (3/5),
          w_kPerpV = Vec (3/5) 0 0, w_kTan = Vec 0 0 (4/5), w_reflectedKDir = Vec (3/5) 0 (4/5),
          w_nAttempts = 1, w_iterations = 1\<rparr>"
proof -
  have out: "\<not> PhononVelocityIsInward example_env mode (GetGlobalDirection example_env (w_reflectedKDir example_walk))
           (GetGlobalDirection example_env (w_newNorm example_walk))"
    by (simp add: example_env_def example_walk_def velocity_inward_def MapKtoVDir_def vec_defs)
  have n0: "w_nAttempts example_walk = 0" by (simp add: example_walk_def)
  have step: "SurfaceWalk example_env mode example_walk
      = SurfaceWalk example_env mode (WalkStep example_env (example_walk\<lparr>w_nAttempts := 1\<rparr>))"
    using out by (simp add: SurfaceWalk.simps [of example_env mode example_walk] n0 maxAttempts_def)
  show ?thesis
    unfolding step example_WalkStep
    by (subst SurfaceWalk.simps)
       (simp add: example_env_def velocity_inward_def MapKtoVDir_def vec_defs)
qed

lemma example_GetReflectedVector:
  "GetReflectedVector example_env (Vec (4/5) 0 (3/5)) (Vec 0 0 1) mode (Vec 0 0 0)
     = Vec (3/5) 0 (4/5)"
proof -
  have "\<not> PhononVelocityIsInward example_env mode (Vec (4/5) 0 (- (3/5))) (Vec 0 0 1)"
    by (simp add: example_env_def example_naive_outward)
  then show ?thesis
    by (simp add: GetReflectedVector_def Let_def example_naive example_WalkInit
          example_SurfaceWalk)
       (simp add: example_env_def)
qed

lemma example_chosen: "chosen_branch example_env example_track rng = Specular"
  by (simp add: chosen_branch_def example_env_def select_branch_def)

lemma example_draw_state:
  "LambertReflection e = LambertReflection example_env \<Longrightarrow> draw_state e n k rng = rng + k"
  by (induction k arbitrary: rng) (simp_all add: example_env_def)

lemma example_nth_draw:
  "LambertReflection e = LambertReflection example_env \<Longrightarrow>
   nth_draw e n k rng = (if rng + k < 3 then Vec 0 0 1 else Vec 0 0 (- 1))"
  by (simp add: nth_draw_def example_draw_state) (simp add: example_env_def)

lemma never_inward_GetLambertianVector:
  assumes "LambertReflection e = LambertReflection example_env"
      and "PhononVelocityIsInward e = (\<lambda>mode k n. False)"
  shows "GetLambertianVector e n mode rng = (Vec 0 0 (- 1), 1001, rng + 1001)"
proof -
  obtain d m rng' where eq: "GetLambertianVector e n mode rng = (d, m, rng')"
    by (cases "GetLambertianVector e n mode rng")
  note c = GetLambertianVector_char [OF eq]
  from c(6) assms(2) have "\<not> m \<le> 1000" by auto
  with c(2) have m: "m = 1001" by simp
  with c(3,4) assms(1) eq show ?thesis
    by (simp add: example_nth_draw example_draw_state)
qed

lemma example_GetLambertianVector:
  assumes "LambertReflection e = LambertReflection example_env"
      and "PhononVelocityIsInward e = velocity_inward"
      and r: "rng \<le> 3"
  shows "GetLambertianVector e (Vec 0 0 1) mode rng = (Vec 0 0 (- 1), 4 - rng, 4)"
proof -
  obtain d m rng' where eq: "GetLambertianVector e (Vec 0 0 1) mode rng = (d, m, rng')"
    by (cases "GetLambertianVector e (Vec 0 0 1) mode rng")
  note c = GetLambertianVector_char [OF eq]
  have inw: "PhononVelocityIsInward e mode (nth_draw e (Vec 0 0 1) k rng) (Vec 0 0 1)
       \<longleftrightarrow> \<not> rng + k < 3" for k
    by (simp add: example_nth_draw assms velocity_inward_def MapKtoVDir_def vec_defs)
  have lower: "\<not> rng + (m - 1) < 3 \<or> m > 1000"
    using c(6) c(3) inw [of "m - 1"] by auto
  have upper: "m - 1 \<le> 3 - rng"
  proof (rule ccontr)
    assume "\<not> m - 1 \<le> 3 - rng"
    then have "3 - rng < m - 1" by simp
    with c(5) have "\<not> PhononVelocityIsInward e mode
       (nth_draw e (Vec 0 0 1) (3 - rng) rng) (Vec 0 0 1)" by blast
    with inw [of "3 - rng"] r show False by simp
  qed
  from lower upper r c(1) have m: "m = 4 - rng" by auto
  with c(3,4) r eq assms(1) show ?thesis
    by (simp add: example_nth_draw example_draw_state)
qed

lemma example_DoReflection:
  "DoReflection example_env example_track example_step Initialize 0
     = (Initialize\<lparr>pc_waveVector := Some (Vec (3/5) 0 (4/5)),
                    pc_exceptions := [Boundary010 example_env ''specular'' 0],
                    pc_killed := True\<rparr>, Suc 0)"
proof -
  have dir: "GetReflectedVector example_env (trk_k example_track) (stp_surfNorm example_step)
      (trk_mode example_track) (stp_surfacePoint example_step) = Vec (3/5) 0 (4/5)"
    by (simp add: example_track_def example_step_def example_GetReflectedVector)
  have out: "\<not> PhononVelocityIsInward example_env (trk_mode example_track) (Vec (3/5) 0 (4/5))
      (stp_surfNorm example_step)"
    by (simp add: example_env_def example_step_def velocity_inward_def MapKtoVDir_def vec_defs)
  show ?thesis
    unfolding DoReflection_Specular [OF example_chosen] Let_def dir
    using out by (simp add: example_step_def example_track_def Initialize_def)
       (simp add: example_env_def)
qed

lemma box_edge:
  "GetEdgePosition (corner_env 1 0) (Vec (1/1000) 0 0) (Vec (4/5) 0 (- (3/5))) = Vec 0 0 0"
  by (simp add: GetEdgePosition_def Let_def corner_env_def corner_normal_def corner_distance_def
        example_env_def mm_def vadd_def vsub_def vneg_def smult_def)

lemma box_azimAngle: "azimAngle (Vec 0 0 1) (Vec 0 0 1) (Vec 0 (- 1) 0) = 0"
  by (simp add: azimAngle_def Let_def perpPart_def project_def angle_def cosTheta_def vec_defs)

lemma rotate_vec_0: "rotate_vec v axis 0 = v"
  by (cases v) (simp add: rotate_vec_def Let_def)

subsection \<open>A sum of the probabilities that is zero\<close>

text \<open>
  Claim C1, evaluated on the code. With the three probabilities zero the sum is zero;
  lines 182 to 184 divide by it, every quotient is not-a-number, both comparisons fail,
  and the call returns a diffuse reflection, reports nothing and kills nothing: no
  configuration error is raised.
\<close>

theorem zero_sum_no_error:
  "dadd (RoundToDouble zero_prob_env)
     (dadd (RoundToDouble zero_prob_env) (SpecularReflProb zero_prob_env 1)
        (DiffuseReflProb zero_prob_env 1))
     (AnharmonicReflProb zero_prob_env 1) = Fin 0
   \<and> DoReflection zero_prob_env example_track example_step Initialize 0
       = (Initialize\<lparr>pc_waveVector := Some (Vec 0 0 (- 1))\<rparr>, 4)
   \<and> pc_exceptions (fst (DoReflection zero_prob_env example_track example_step Initialize 0)) = []
   \<and> \<not> pc_killed (fst (DoReflection zero_prob_env example_track example_step Initialize 0))"
proof -
  have ch: "chosen_branch zero_prob_env example_track 0 = Diffuse"
    by (simp add: chosen_branch_def zero_prob_env_def example_env_def select_branch_def)
  have lam: "GetLambertianVector zero_prob_env (Vec 0 0 1) 0 (Suc 0) = (Vec 0 0 (- 1), 3, 4)"
    using example_GetLambertianVector [of zero_prob_env "Suc 0" 0]
    by (simp add: zero_prob_env_def example_env_def)
  have inw: "PhononVelocityIsInward zero_prob_env 0 (Vec 0 0 (- 1)) (Vec 0 0 1)"
    by (simp add: zero_prob_env_def example_env_def velocity_inward_def MapKtoVDir_def vec_defs)
  have rnd: "G4UniformRand zero_prob_env 0 = (1/2, Suc 0)"
    by (simp add: zero_prob_env_def example_env_def)
  have do_it: "DoReflection zero_prob_env example_track example_step Initialize 0
       = (Initialize\<lparr>pc_waveVector := Some (Vec 0 0 (- 1))\<rparr>, 4)"
    unfolding DoReflection_Diffuse [OF ch]
    using inw by (simp add: Let_def example_track_def example_step_def rnd lam)
  have sum: "dadd (RoundToDouble zero_prob_env)
     (dadd (RoundToDouble zero_prob_env) (SpecularReflProb zero_prob_env 1)
        (DiffuseReflProb zero_prob_env 1))
     (AnharmonicReflProb zero_prob_env 1) = Fin 0"
    by (simp add: zero_prob_env_def example_env_def)
  show ?thesis
    unfolding do_it using sum by (simp add: Initialize_def)
qed

subsection \<open>The final check of the direction\<close>

text \<open>
  Claim C2, as amended. In the specular and in the diffuse branch the direction is
  written to the particle change and tested against the normal of the collision point;
  if the test fails, the warning Boundary010, which names the kind of reflection and the
  label of the mode, is reported and the track is killed, and otherwise nothing is
  reported and nothing is killed. The decay branch has no such test: the two secondaries
  receive the directions that GetLambertianVector returns, nothing is reported and
  nothing is killed.
\<close>

theorem DoReflection_final_check:
  "(chosen_branch e aTrack rng0 = Specular \<longrightarrow>
      (let dir = GetReflectedVector e (trk_k aTrack) (stp_surfNorm aStep) (trk_mode aTrack)
                   (stp_surfacePoint aStep);
           pc = fst (DoReflection e aTrack aStep pc0 rng0)
       in pc_waveVector pc = Some dir \<and>
          (if PhononVelocityIsInward e (trk_mode aTrack) dir (stp_surfNorm aStep)
           then pc_killed pc = pc_killed pc0 \<and> pc_exceptions pc = pc_exceptions pc0
           else pc_killed pc \<and> pc_exceptions pc = pc_exceptions pc0 @
             [\<lparr>exc_code = ''Boundary010'', exc_severity = JustWarning,
               exc_description = ''Phonon specular reflection failed'' @ [CHR 0x0A]
                 @ ''Phonon mode at time of death: '' @ Label e (trk_mode aTrack)\<rparr>])))
   \<and> (chosen_branch e aTrack rng0 = Diffuse \<longrightarrow>
      (let dir = fst (GetLambertianVector e (stp_surfNorm aStep) (trk_mode aTrack)
                   (snd (G4UniformRand e rng0)));
           pc = fst (DoReflection e aTrack aStep pc0 rng0)
       in pc_waveVector pc = Some dir \<and>
          (if PhononVelocityIsInward e (trk_mode aTrack) dir (stp_surfNorm aStep)
           then pc_killed pc = pc_killed pc0 \<and> pc_exceptions pc = pc_exceptions pc0
           else pc_killed pc \<and> pc_exceptions pc = pc_exceptions pc0 @
             [\<lparr>exc_code = ''Boundary010'', exc_severity = JustWarning,
               exc_description = ''Phonon diffuse reflection failed'' @ [CHR 0x0A]
                 @ ''Phonon mode at time of death: '' @ Label e (trk_mode aTrack)\<rparr>])))
   \<and> (chosen_branch e aTrack rng0 = Decay \<longrightarrow>
      (let r1 = GetLambertianVector e (stp_surfNorm aStep) (trk_mode aTrack)
                  (DoDecay e (snd (G4UniformRand e rng0)));
           r2 = GetLambertianVector e (stp_surfNorm aStep) (trk_mode aTrack) (snd (snd r1));
           pc = fst (DoReflection e aTrack aStep pc0 rng0)
       in pc_secondaries pc = [fst r1, fst r2] \<and> pc_waveVector pc = pc_waveVector pc0
          \<and> pc_killed pc = pc_killed pc0 \<and> pc_exceptions pc = pc_exceptions pc0))"
proof (intro conjI impI)
  assume "chosen_branch e aTrack rng0 = Specular"
  then show "let dir = GetReflectedVector e (trk_k aTrack) (stp_surfNorm aStep) (trk_mode aTrack)
                   (stp_surfacePoint aStep);
           pc = fst (DoReflection e aTrack aStep pc0 rng0)
       in pc_waveVector pc = Some dir \<and>
          (if PhononVelocityIsInward e (trk_mode aTrack) dir (stp_surfNorm aStep)
           then pc_killed pc = pc_killed pc0 \<and> pc_exceptions pc = pc_exceptions pc0
           else pc_killed pc \<and> pc_exceptions pc = pc_exceptions pc0 @
             [\<lparr>exc_code = ''Boundary010'', exc_severity = JustWarning,
               exc_description = ''Phonon specular reflection failed'' @ [CHR 0x0A]
                 @ ''Phonon mode at time of death: '' @ Label e (trk_mode aTrack)\<rparr>])"
    by (simp add: DoReflection_Specular Let_def Boundary010_def)
next
  assume "chosen_branch e aTrack rng0 = Diffuse"
  then show "let dir = fst (GetLambertianVector e (stp_surfNorm aStep) (trk_mode aTrack)
                   (snd (G4UniformRand e rng0)));
           pc = fst (DoReflection e aTrack aStep pc0 rng0)
       in pc_waveVector pc = Some dir \<and>
          (if PhononVelocityIsInward e (trk_mode aTrack) dir (stp_surfNorm aStep)
           then pc_killed pc = pc_killed pc0 \<and> pc_exceptions pc = pc_exceptions pc0
           else pc_killed pc \<and> pc_exceptions pc = pc_exceptions pc0 @
             [\<lparr>exc_code = ''Boundary010'', exc_severity = JustWarning,
               exc_description = ''Phonon diffuse reflection failed'' @ [CHR 0x0A]
                 @ ''Phonon mode at time of death: '' @ Label e (trk_mode aTrack)\<rparr>])"
    by (simp add: DoReflection_Diffuse Let_def Boundary010_def)
next
  assume "chosen_branch e aTrack rng0 = Decay"
  then show "let r1 = GetLambertianVector e (stp_surfNorm aStep) (trk_mode aTrack)
                  (DoDecay e (snd (G4UniformRand e rng0)));
           r2 = GetLambertianVector e (stp_surfNorm aStep) (trk_mode aTrack) (snd (snd r1));
           pc = fst (DoReflection e aTrack aStep pc0 rng0)
       in pc_secondaries pc = [fst r1, fst r2] \<and> pc_waveVector pc = pc_waveVector pc0
          \<and> pc_killed pc = pc_killed pc0 \<and> pc_exceptions pc = pc_exceptions pc0"
    by (simp add: DoReflection_Decay Let_def)
qed

text \<open>
  The theorem at the example track in the three surroundings: a specular reflection
  that fails the test, a diffuse one that passes it, and a decay.
\<close>

theorem DoReflection_final_check_witness:
  "chosen_branch example_env example_track 0 = Specular
   \<and> \<not> PhononVelocityIsInward example_env (trk_mode example_track)
         (GetReflectedVector example_env (trk_k example_track) (stp_surfNorm example_step)
            (trk_mode example_track) (stp_surfacePoint example_step))
         (stp_surfNorm example_step)
   \<and> pc_killed (fst (DoReflection example_env example_track example_step Initialize 0))
   \<and> pc_exceptions (fst (DoReflection example_env example_track example_step Initialize 0))
       = [\<lparr>exc_code = ''Boundary010'', exc_severity = JustWarning,
           exc_description = ''Phonon specular reflection failed'' @ [CHR 0x0A]
             @ ''Phonon mode at time of death: L''\<rparr>]
   \<and> chosen_branch zero_prob_env example_track 0 = Diffuse
   \<and> pc_waveVector (fst (DoReflection zero_prob_env example_track example_step Initialize 0))
       = Some (Vec 0 0 (- 1))
   \<and> \<not> pc_killed (fst (DoReflection zero_prob_env example_track example_step Initialize 0))
   \<and> chosen_branch decay_env example_track 0 = Decay
   \<and> pc_exceptions (fst (DoReflection decay_env example_track example_step Initialize 0)) = []"
proof -
  have s: "chosen_branch example_env example_track 0 = Specular"
    by (rule example_chosen)
  have out: "\<not> PhononVelocityIsInward example_env (trk_mode example_track)
         (GetReflectedVector example_env (trk_k example_track) (stp_surfNorm example_step)
            (trk_mode example_track) (stp_surfacePoint example_step))
         (stp_surfNorm example_step)"
    by (simp add: example_track_def example_step_def example_GetReflectedVector)
       (simp add: example_env_def velocity_inward_def MapKtoVDir_def vec_defs)
  have d: "chosen_branch zero_prob_env example_track 0 = Diffuse"
    by (simp add: chosen_branch_def zero_prob_env_def example_env_def select_branch_def)
  have lam: "GetLambertianVector zero_prob_env (Vec 0 0 1) 0 (Suc 0) = (Vec 0 0 (- 1), 3, 4)"
    using example_GetLambertianVector [of zero_prob_env "Suc 0" 0]
    by (simp add: zero_prob_env_def example_env_def)
  have inw: "PhononVelocityIsInward zero_prob_env 0 (Vec 0 0 (- 1)) (Vec 0 0 1)"
    by (simp add: zero_prob_env_def example_env_def velocity_inward_def MapKtoVDir_def vec_defs)
  have rnd: "G4UniformRand zero_prob_env 0 = (1/2, Suc 0)"
    by (simp add: zero_prob_env_def example_env_def)
  have c: "chosen_branch decay_env example_track 0 = Decay"
    by (simp add: chosen_branch_def decay_env_def never_inward_env_def example_env_def
          select_branch_def)
  have lbl: "Label example_env (trk_mode example_track) = ''L''"
    by (simp add: example_env_def example_track_def)
  from DoReflection_final_check [of example_env example_track 0 example_step Initialize]
    s out lbl
  have 1: "pc_killed (fst (DoReflection example_env example_track example_step Initialize 0))
   \<and> pc_exceptions (fst (DoReflection example_env example_track example_step Initialize 0))
       = [\<lparr>exc_code = ''Boundary010'', exc_severity = JustWarning,
           exc_description = ''Phonon specular reflection failed'' @ [CHR 0x0A]
             @ ''Phonon mode at time of death: L''\<rparr>]"
    by (simp add: Let_def Initialize_def)
  from DoReflection_final_check [of zero_prob_env example_track 0 example_step Initialize]
    d lam inw rnd
  have 2: "pc_waveVector (fst (DoReflection zero_prob_env example_track example_step Initialize 0))
       = Some (Vec 0 0 (- 1))
   \<and> \<not> pc_killed (fst (DoReflection zero_prob_env example_track example_step Initialize 0))"
    by (simp add: Let_def Initialize_def example_track_def example_step_def)
  from DoReflection_final_check [of decay_env example_track 0 example_step Initialize] c
  have 3: "pc_exceptions (fst (DoReflection decay_env example_track example_step Initialize 0)) = []"
    by (simp add: Let_def Initialize_def)
  from s out 1 d 2 c 3 show ?thesis by blast
qed

text \<open>
  Counterexample to claim C2 as stated: in a lattice where no direction is inward the
  decay branch gives both secondaries a direction that fails the test, reports nothing
  and kills nothing.
\<close>

theorem decay_branch_unchecked:
  "chosen_branch decay_env example_track 0 = Decay
   \<and> pc_secondaries (fst (DoReflection decay_env example_track example_step Initialize 0))
       = [Vec 0 0 (- 1), Vec 0 0 (- 1)]
   \<and> \<not> PhononVelocityIsInward decay_env (trk_mode example_track) (Vec 0 0 (- 1))
         (stp_surfNorm example_step)
   \<and> pc_exceptions (fst (DoReflection decay_env example_track example_step Initialize 0)) = []
   \<and> \<not> pc_killed (fst (DoReflection decay_env example_track example_step Initialize 0))"
proof -
  have ch: "chosen_branch decay_env example_track 0 = Decay"
    by (simp add: chosen_branch_def decay_env_def never_inward_env_def example_env_def
          select_branch_def)
  have lam: "GetLambertianVector decay_env n mode rng = (Vec 0 0 (- 1), 1001, rng + 1001)"
    for n mode rng
    by (rule never_inward_GetLambertianVector)
       (simp_all add: decay_env_def never_inward_env_def example_env_def)
  have do_it: "DoReflection decay_env example_track example_step Initialize 0
       = (Initialize\<lparr>pc_secondaries := [Vec 0 0 (- 1), Vec 0 0 (- 1)]\<rparr>, 2004)"
    unfolding DoReflection_Decay [OF ch]
    by (simp add: Let_def lam example_step_def)
       (simp add: decay_env_def never_inward_env_def example_env_def)
  have out: "\<not> PhononVelocityIsInward decay_env mode k n" for mode k n
    by (simp add: decay_env_def never_inward_env_def)
  show ?thesis
    unfolding do_it using ch out by (simp add: Initialize_def)
qed

subsection \<open>The bounds of the two loops\<close>

text \<open>
  Claim C4, evaluated on the code. The surface walk passes through its body at most 1000
  times. The rejection loop of GetLambertianVector makes at most 1001 draws, and it makes
  1001 of them in a lattice where no direction is inward: one more than \<open>maxTries\<close>.
\<close>

theorem retry_counts:
  "w_iterations (SurfaceWalk e mode (WalkInit e reflectedKDir surfNorm surfacePoint)) \<le> 1000
   \<and> fst (snd (GetLambertianVector e surfNorm mode rng)) \<le> 1001
   \<and> fst (snd (GetLambertianVector never_inward_env (Vec 0 0 1) 0 0)) = 1001"
proof -
  let ?w0 = "WalkInit e reflectedKDir surfNorm surfacePoint"
  have w0: "w_nAttempts ?w0 = 0" "w_iterations ?w0 = 0"
    by (simp_all add: WalkInit_def Let_def)
  from SurfaceWalk_counters [of ?w0 e mode] w0
  have walk: "w_iterations (SurfaceWalk e mode ?w0) \<le> 1000"
    by (simp add: maxAttempts_def)
  obtain d m rng' where eq: "GetLambertianVector e surfNorm mode rng = (d, m, rng')"
    by (cases "GetLambertianVector e surfNorm mode rng")
  from GetLambertianVector_char(2) [OF eq] eq
  have draws: "fst (snd (GetLambertianVector e surfNorm mode rng)) \<le> 1001" by simp
  have never: "fst (snd (GetLambertianVector never_inward_env (Vec 0 0 1) 0 0)) = 1001"
    using never_inward_GetLambertianVector [of never_inward_env "Vec 0 0 1" 0 0]
    by (simp add: never_inward_env_def)
  from walk draws never show ?thesis by blast
qed

subsection \<open>The direction returned by the rejection loop\<close>

text \<open>
  GetLambertianVector returns the last draw it made, draw number \<open>nTries\<close> counted from
  one; every draw before it failed the inward test. If that draw is among the first 1000
  it passed the test. If none of the first 1000 draws passes, draw number 1001 is
  returned as it was drawn, without a test.
\<close>

theorem GetLambertianVector_result:
  "GetLambertianVector e surfNorm mode rng = (reflectedKDir, nTries, rng') \<Longrightarrow>
     1 \<le> nTries \<and> nTries \<le> 1001
     \<and> reflectedKDir = nth_draw e surfNorm (nTries - 1) rng
     \<and> rng' = draw_state e surfNorm nTries rng
     \<and> (\<forall>k < nTries - 1. \<not> PhononVelocityIsInward e mode (nth_draw e surfNorm k rng) surfNorm)
     \<and> (nTries \<le> 1000 \<longrightarrow> PhononVelocityIsInward e mode reflectedKDir surfNorm)
     \<and> ((\<forall>k < 1000. \<not> PhononVelocityIsInward e mode (nth_draw e surfNorm k rng) surfNorm)
          \<longrightarrow> nTries = 1001)"
proof -
  assume eq: "GetLambertianVector e surfNorm mode rng = (reflectedKDir, nTries, rng')"
  note c = GetLambertianVector_char [OF eq]
  have last: "nTries = 1001"
    if none: "\<forall>k < 1000. \<not> PhononVelocityIsInward e mode (nth_draw e surfNorm k rng) surfNorm"
  proof (rule ccontr)
    assume "nTries \<noteq> 1001"
    with c(1,2) have le: "nTries \<le> 1000" "nTries - 1 < 1000" by simp_all
    with c(6) c(3) have "PhononVelocityIsInward e mode (nth_draw e surfNorm (nTries - 1) rng) surfNorm"
      by simp
    with none le(2) show False by blast
  qed
  from c last show ?thesis by blast
qed

text \<open>
  The theorem where the fourth draw is the first to pass, and in a lattice where no
  direction is inward.
\<close>

theorem GetLambertianVector_result_witness:
  "GetLambertianVector example_env (Vec 0 0 1) 0 0 = (Vec 0 0 (- 1), 4, 4)
   \<and> Vec 0 0 (- 1) = nth_draw example_env (Vec 0 0 1) 3 0
   \<and> PhononVelocityIsInward example_env 0 (Vec 0 0 (- 1)) (Vec 0 0 1)
   \<and> \<not> PhononVelocityIsInward example_env 0 (nth_draw example_env (Vec 0 0 1) 2 0) (Vec 0 0 1)
   \<and> GetLambertianVector never_inward_env (Vec 0 0 1) 0 0 = (Vec 0 0 (- 1), 1001, 1001)
   \<and> Vec 0 0 (- 1) = nth_draw never_inward_env (Vec 0 0 1) 1000 0"
proof -
  have eq: "GetLambertianVector example_env (Vec 0 0 1) 0 0 = (Vec 0 0 (- 1), 4, 4)"
    using example_GetLambertianVector [of example_env 0 0] by (simp add: example_env_def)
  have eq2: "GetLambertianVector never_inward_env (Vec 0 0 1) 0 0 = (Vec 0 0 (- 1), 1001, 1001)"
    using never_inward_GetLambertianVector [of never_inward_env "Vec 0 0 1" 0 0]
    by (simp add: never_inward_env_def)
  note r = GetLambertianVector_result [OF eq]
  from r have a1: "Vec 0 0 (- 1) = nth_draw example_env (Vec 0 0 1) 3 0"
    by simp
  from r have "(4::nat) \<le> 1000 \<longrightarrow>
      PhononVelocityIsInward example_env 0 (Vec 0 0 (- 1)) (Vec 0 0 1)"
    by blast
  then have a2: "PhononVelocityIsInward example_env 0 (Vec 0 0 (- 1)) (Vec 0 0 1)"
    by simp
  from r have "\<forall>k < 4 - 1. \<not> PhononVelocityIsInward example_env 0
      (nth_draw example_env (Vec 0 0 1) k 0) (Vec 0 0 1)"
    by blast
  from this [rule_format, of 2]
  have a3: "\<not> PhononVelocityIsInward example_env 0
      (nth_draw example_env (Vec 0 0 1) 2 0) (Vec 0 0 1)"
    by simp
  from GetLambertianVector_result [OF eq2]
  have b: "Vec 0 0 (- 1) = nth_draw never_inward_env (Vec 0 0 1) 1000 0"
    by simp
  from eq eq2 a1 a2 a3 b show ?thesis by blast
qed

lemma budget_draw_state: "draw_state budget_env n k rng = rng + k"
  by (induction k arbitrary: rng) (simp_all add: budget_env_def never_inward_env_def)

lemma budget_nth_draw:
  "nth_draw budget_env n k rng = (if rng + k < 1000 then Vec 0 0 1 else Vec 0 0 (- 1))"
  by (simp add: nth_draw_def budget_draw_state) (simp add: budget_env_def never_inward_env_def)

text \<open>
  Claim C8, evaluated on the code. In a lattice where no direction is inward, with a
  draw that changes after the 1000th, the 1000 draws of the budget are \<open>(0, 0, 1)\<close> and
  all fail the test; GetLambertianVector then makes draw number 1001 and returns it,
  \<open>(0, 0, -1)\<close>, untested, not the last draw of the budget.
\<close>

theorem GetLambertianVector_extra_draw:
  "GetLambertianVector budget_env (Vec 0 0 1) 0 0 = (Vec 0 0 (- 1), 1001, 1001)
   \<and> nth_draw budget_env (Vec 0 0 1) 999 0 = Vec 0 0 1
   \<and> nth_draw budget_env (Vec 0 0 1) 1000 0 = Vec 0 0 (- 1)
   \<and> \<not> PhononVelocityIsInward budget_env 0 (Vec 0 0 1) (Vec 0 0 1)"
proof -
  obtain d m rng' where eq: "GetLambertianVector budget_env (Vec 0 0 1) 0 0 = (d, m, rng')"
    by (cases "GetLambertianVector budget_env (Vec 0 0 1) 0 0")
  note c = GetLambertianVector_char [OF eq]
  have never: "\<not> PhononVelocityIsInward budget_env mode k n" for mode k n
    by (simp add: budget_env_def never_inward_env_def)
  from c(6) never have "\<not> m \<le> 1000" by auto
  with c(2) have m: "m = 1001" by simp
  with c(3,4) eq
  have "GetLambertianVector budget_env (Vec 0 0 1) 0 0 = (Vec 0 0 (- 1), 1001, 1001)"
    by (simp add: budget_nth_draw budget_draw_state)
  with never show ?thesis by (simp add: budget_nth_draw)
qed

subsection \<open>The absorption test\<close>

text \<open>
  Claim C9, as amended. AbsorbTrack holds if and only if the test of the base class
  holds and the magnitude of the wavevector's component along the surface normal
  exceeds \<open>absMinK\<close>; when it holds, the caller does not invoke DoReflection.
\<close>

theorem AbsorbTrack_iff:
  "(AbsorbTrack e baseAbsorb aTrack aStep
      \<longleftrightarrow> baseAbsorb \<and> \<bar>dot (trk_k aTrack) (stp_surfNorm aStep)\<bar> > absMinK e)
   \<and> (AbsorbTrack e baseAbsorb aTrack aStep
      \<longrightarrow> ApplyBoundaryAction e baseAbsorb aTrack aStep particleChange rng = Absorption)"
  by (simp add: AbsorbTrack_def ApplyBoundaryAction_def)

text \<open>The theorem at the example track, with the base test passed.\<close>

theorem AbsorbTrack_iff_witness:
  "AbsorbTrack example_env True example_track example_step
   \<and> \<bar>dot (trk_k example_track) (stp_surfNorm example_step)\<bar> > absMinK example_env
   \<and> ApplyBoundaryAction example_env True example_track example_step Initialize 0 = Absorption"
proof -
  have "\<bar>dot (trk_k example_track) (stp_surfNorm example_step)\<bar> > absMinK example_env"
    by (simp add: example_env_def example_track_def example_step_def vec_defs)
  with AbsorbTrack_iff [of example_env True example_track example_step Initialize 0]
  show ?thesis by simp
qed

text \<open>
  Counterexample to claim C9 as stated: the normal component exceeds \<open>absMinK\<close>, the
  base test fails, and the track is not absorbed.
\<close>

theorem absorption_needs_base_test:
  "\<not> (AbsorbTrack example_env False example_track example_step
        \<longleftrightarrow> \<bar>dot (trk_k example_track) (stp_surfNorm example_step)\<bar> > absMinK example_env)"
  by (simp add: AbsorbTrack_def example_env_def example_track_def example_step_def vec_defs)

subsection \<open>The edge correction inside the surface walk\<close>

text \<open>
  Claim C6, evaluated on the code. After every pass through the loop body the direction
  is the rotated tangential part plus the fixed perpendicular magnitude times the new
  normal, none of which depends on GetReflectionOnEdge. At the edge of a box the walk of
  the example steps past the edge, the solid is not met again along the inward normal,
  and the position after the pass is the point of the edge that GetEdgePosition returns;
  GetReflectionOnEdge returns \<open>(-4/5, 0, -3/5)\<close>, the direction reflected at the
  neighbouring face, but the direction after the pass is again \<open>(4/5, 0, -3/5)\<close>.
\<close>

theorem edge_direction_overwritten:
  "(let stepped = vadd (w_stepLocalPos w) (smult stepSize (unit (w_kTan w)));
        newNorm = SurfaceNormal e stepped;
        axis = unit (cross (w_kPerpV w) (w_kTan w))
    in w_reflectedKDir (WalkStep e w)
         = vadd (rotate_vec (w_kTan w) axis (azimAngle (w_newNorm w) newNorm axis))
                (smult (w_kPerpMag w) newNorm))
   \<and> (let box = corner_env 1 0;
           start = WalkInit box (Vec (4/5) 0 (- (3/5))) (Vec 0 0 1) (Vec 0 0 0);
           stepped = Vec (1/1000) 0 0;
           edgePos = GetEdgePosition box stepped (w_reflectedKDir start)
       in vadd (w_stepLocalPos start) (smult stepSize (unit (w_kTan start))) = stepped
          \<and> DistanceToIn box stepped (vneg (SurfaceNormal box stepped)) > 1
          \<and> edgePos = Vec 0 0 0
          \<and> w_stepLocalPos (WalkStep box start) = edgePos
          \<and> GetReflectionOnEdge box edgePos (w_reflectedKDir start) = Vec (- (4/5)) 0 (- (3/5))
          \<and> w_reflectedKDir (WalkStep box start) = Vec (4/5) 0 (- (3/5)))"
proof -
  let ?box = "corner_env 1 0"
  have init: "WalkInit ?box (Vec (4/5) 0 (- (3/5))) (Vec 0 0 1) (Vec 0 0 0) = example_walk"
    by (simp add: WalkInit_def Let_def corner_env_def example_env_def vec_defs example_walk_def)
  have stepped: "vadd (w_stepLocalPos example_walk) (smult stepSize (unit (w_kTan example_walk)))
      = Vec (1/1000) 0 0"
    by (simp add: example_walk_def example_unit_kTan stepSize_def um_def vec_defs)
  have norm: "SurfaceNormal ?box (Vec (1/1000) 0 0) = Vec 0 0 1"
    by (simp add: corner_env_def corner_normal_def)
  have far: "DistanceToIn ?box (Vec (1/1000) 0 0) (vneg (Vec 0 0 1)) > 1"
    by (simp add: corner_env_def corner_distance_def kInfinity_def vneg_def)
  have dir0: "w_reflectedKDir example_walk = Vec (4/5) 0 (- (3/5))"
    by (simp add: example_walk_def)
  have refl: "GetReflectionOnEdge ?box (Vec 0 0 0) (Vec (4/5) 0 (- (3/5)))
      = Vec (- (4/5)) 0 (- (3/5))"
    by (simp add: GetReflectionOnEdge_def Let_def corner_env_def corner_normal_def
          mm_def setMag_def mag_def vec_defs)
  have pos: "w_stepLocalPos (WalkStep ?box example_walk) = Vec 0 0 0"
    using far by (simp add: WalkStep_def Let_def case_prod_beta stepped norm dir0 box_edge)
  have dir: "w_reflectedKDir (WalkStep ?box example_walk) = Vec (4/5) 0 (- (3/5))"
    unfolding WalkStep_direction stepped norm
    by (simp add: example_walk_def example_axis box_azimAngle rotate_vec_0) (simp add: vec_defs)
  show ?thesis
    unfolding Let_def init dir0 stepped norm box_edge
    using WalkStep_direction [of e w] far refl pos dir by simp
qed

subsection \<open>The position returned at an edge\<close>

lemma GetEdgePosition_pulled:
  "GetEdgePosition e p w =
     vadd (vsub (vsub p (smult (1 * mm) (SurfaceNormal e p)))
             (smult (DistanceToIn e (vsub p (smult (1 * mm) (SurfaceNormal e p)))
                       (vneg (vsub w (outer_kPerpV e))))
                (vsub w (outer_kPerpV e))))
          (smult (1 * mm) (SurfaceNormal e p))"
  by (simp add: GetEdgePosition_def Let_def)

lemma dot_vadd: "dot (vadd a b) m = dot a m + dot b m"
  by (simp add: dot_def vadd_def algebra_simps)

lemma dot_smult: "dot (smult t a) m = t * dot a m"
  by (simp add: dot_def smult_def algebra_simps)

text \<open>
  The position that GetEdgePosition returns is the point pulled back along the
  tangential part, displaced by 1 mm along the normal of the face that was left: the
  input position moved back by the distance found. If the pulled-back point lies in the
  plane \<open>x \<cdot> m = c\<close>, the returned position is off that plane by 1 mm times the scalar
  product of the two normals.
\<close>

theorem GetEdgePosition_offset:
  "(let currNorm = SurfaceNormal e stepLocalPos;
        kTan = vsub waveVector (outer_kPerpV e);
        inside = vsub stepLocalPos (smult (1 * mm) currNorm);
        surfAdjust = DistanceToIn e inside (vneg kTan);
        pulled = vsub inside (smult surfAdjust kTan)
    in GetEdgePosition e stepLocalPos waveVector = vadd pulled (smult (1 * mm) currNorm)
       \<and> GetEdgePosition e stepLocalPos waveVector = vsub stepLocalPos (smult surfAdjust kTan)
       \<and> (dot pulled m = c \<longrightarrow>
            dot (GetEdgePosition e stepLocalPos waveVector) m - c = mm * dot currNorm m))"
  unfolding Let_def GetEdgePosition_pulled
  by (auto simp: dot_vadd dot_smult) (simp add: vadd_def vsub_def smult_def)

lemma wedge_edge:
  "GetEdgePosition (corner_env (3/5) (- (4/5))) (Vec (1/1000) 0 0) (Vec (4/5) 0 (- (3/5)))
     = Vec (- (4/3)) 0 0"
  by (simp add: GetEdgePosition_def Let_def corner_env_def corner_normal_def corner_distance_def
        example_env_def mm_def vadd_def vsub_def vneg_def smult_def)

text \<open>The theorem at the edge of a box: the position returned lies on the edge.\<close>

theorem GetEdgePosition_offset_witness:
  "dot (Vec 0 0 (- 1)) (Vec 1 0 0) = 0
   \<and> GetEdgePosition (corner_env 1 0) (Vec (1/1000) 0 0) (Vec (4/5) 0 (- (3/5))) = Vec 0 0 0
   \<and> dot (GetEdgePosition (corner_env 1 0) (Vec (1/1000) 0 0) (Vec (4/5) 0 (- (3/5))))
        (Vec 1 0 0) - 0 = 0"
proof -
  let ?e = "corner_env 1 0" and ?p = "Vec (1/1000) 0 0" and ?w = "Vec (4/5) 0 (- (3/5))"
  let ?pulled = "vsub (vsub ?p (smult (1 * mm) (SurfaceNormal ?e ?p)))
     (smult (DistanceToIn ?e (vsub ?p (smult (1 * mm) (SurfaceNormal ?e ?p)))
               (vneg (vsub ?w (outer_kPerpV ?e))))
        (vsub ?w (outer_kPerpV ?e)))"
  have pulled: "?pulled = Vec 0 0 (- 1)"
    by (simp add: corner_env_def corner_normal_def corner_distance_def
        example_env_def mm_def vadd_def vsub_def vneg_def smult_def)
  have norm: "SurfaceNormal ?e ?p = Vec 0 0 1"
    by (simp add: corner_env_def corner_normal_def)
  have on_plane: "dot (Vec 0 0 (- 1)) (Vec 1 0 0) = 0" by (simp add: dot_def)
  from GetEdgePosition_offset [of ?e ?p ?w "Vec 1 0 0" 0]
  have "dot ?pulled (Vec 1 0 0) = 0 \<longrightarrow>
        dot (GetEdgePosition ?e ?p ?w) (Vec 1 0 0) - 0 = mm * dot (SurfaceNormal ?e ?p) (Vec 1 0 0)"
    unfolding Let_def by blast
  with on_plane have "dot (GetEdgePosition ?e ?p ?w) (Vec 1 0 0) - 0
      = mm * dot (SurfaceNormal ?e ?p) (Vec 1 0 0)"
    unfolding pulled by blast
  also have "\<dots> = 0" unfolding norm by (simp add: dot_def)
  finally have "dot (GetEdgePosition ?e ?p ?w) (Vec 1 0 0) - 0 = 0" .
  with on_plane box_edge show ?thesis by blast
qed

text \<open>
  At an edge where the second face runs back under the first, the walk of the example
  steps past the edge to \<open>(1/1000, 0, 0)\<close>, and GetEdgePosition returns \<open>(-4/3, 0, 0)\<close>,
  a point at the distance 4/5 mm from the plane of the neighbouring face.
\<close>

theorem wedge_edge_position_off_facet:
  "(let wedge = corner_env (3/5) (- (4/5));
        start = WalkInit wedge (Vec (4/5) 0 (- (3/5))) (Vec 0 0 1) (Vec 0 0 0);
        stepLocalPos = Vec (1/1000) 0 0;
        waveVector = Vec (4/5) 0 (- (3/5));
        neighbour = Vec (3/5) 0 (- (4/5))
    in vadd (w_stepLocalPos start) (smult stepSize (unit (w_kTan start))) = stepLocalPos
       \<and> w_reflectedKDir start = waveVector
       \<and> DistanceToIn wedge stepLocalPos (vneg (SurfaceNormal wedge stepLocalPos)) > 1
       \<and> w_stepLocalPos (WalkStep wedge start) = GetEdgePosition wedge stepLocalPos waveVector
       \<and> SurfaceNormal wedge (vsub stepLocalPos (smult (1 * mm) (SurfaceNormal wedge stepLocalPos)))
            = neighbour
       \<and> mag neighbour = 1
       \<and> GetEdgePosition wedge stepLocalPos waveVector = Vec (- (4/3)) 0 0
       \<and> \<bar>dot (GetEdgePosition wedge stepLocalPos waveVector) neighbour - 0\<bar> = 4/5 * mm
       \<and> stepSize = mm / 1000)"
proof -
  let ?wedge = "corner_env (3/5) (- (4/5))"
  have init: "WalkInit ?wedge (Vec (4/5) 0 (- (3/5))) (Vec 0 0 1) (Vec 0 0 0) = example_walk"
    by (simp add: WalkInit_def Let_def corner_env_def example_env_def vec_defs example_walk_def)
  have stepped: "vadd (w_stepLocalPos example_walk) (smult stepSize (unit (w_kTan example_walk)))
      = Vec (1/1000) 0 0"
    by (simp add: example_walk_def example_unit_kTan stepSize_def um_def vec_defs)
  have dir0: "w_reflectedKDir example_walk = Vec (4/5) 0 (- (3/5))"
    by (simp add: example_walk_def)
  have norm: "SurfaceNormal ?wedge (Vec (1/1000) 0 0) = Vec 0 0 1"
    by (simp add: corner_env_def corner_normal_def)
  have far: "DistanceToIn ?wedge (Vec (1/1000) 0 0) (vneg (Vec 0 0 1)) > 1"
    by (simp add: corner_env_def corner_distance_def kInfinity_def vneg_def)
  have pos: "w_stepLocalPos (WalkStep ?wedge example_walk) = Vec (- (4/3)) 0 0"
    using far by (simp add: WalkStep_def Let_def case_prod_beta stepped norm dir0 wedge_edge)
  have rest: "SurfaceNormal ?wedge (vsub (Vec (1/1000) 0 0) (smult (1 * mm) (Vec 0 0 1)))
            = Vec (3/5) 0 (- (4/5))
       \<and> mag (Vec (3/5) 0 (- (4/5))) = 1
       \<and> \<bar>dot (Vec (- (4/3)) 0 0) (Vec (3/5) 0 (- (4/5))) - 0\<bar> = 4/5 * mm
       \<and> stepSize = mm / 1000"
    by (simp add: corner_env_def corner_normal_def mm_def stepSize_def um_def mag_def vec_defs)
  show ?thesis
    unfolding Let_def init dir0 stepped norm wedge_edge
    using far pos rest by simp
qed





subsection \<open>The normal of the final check\<close>

text \<open>
  Claim C10. In the specular branch the track is killed exactly when the direction
  returned by GetReflectedVector is not inward with respect to the normal of the
  collision point, whereas a surface walk that ends before its attempts are exhausted
  ends with a direction that is inward with respect to the normal it has walked to. In
  the example the walk accepts \<open>(3/5, 0, 4/5)\<close> after one pass, at the wall with normal
  \<open>(-1, 0, 0)\<close>; the final check against \<open>(0, 0, 1)\<close> rejects it, the warning for a
  specular reflection is reported and the track is killed.
\<close>

theorem final_check_against_collision_normal:
  "(chosen_branch e aTrack rng0 = Specular \<longrightarrow>
      (pc_killed (fst (DoReflection e aTrack aStep Initialize rng0))
        \<longleftrightarrow> \<not> PhononVelocityIsInward e (trk_mode aTrack)
               (GetReflectedVector e (trk_k aTrack) (stp_surfNorm aStep) (trk_mode aTrack)
                  (stp_surfacePoint aStep))
               (stp_surfNorm aStep)))
   \<and> (let w = SurfaceWalk e mode start
       in w_nAttempts w \<le> maxAttempts \<longrightarrow>
          PhononVelocityIsInward e mode (GetGlobalDirection e (w_reflectedKDir w))
            (GetGlobalDirection e (w_newNorm w)))
   \<and> (let k = trk_k example_track; n = stp_surfNorm example_step;
           p = stp_surfacePoint example_step;
           w = SurfaceWalk example_env 0 (WalkInit example_env (NaiveReflection k n) n p);
           pc = fst (DoReflection example_env example_track example_step Initialize 0)
       in chosen_branch example_env example_track 0 = Specular
          \<and> \<not> PhononVelocityIsInward example_env 0 (NaiveReflection k n) n
          \<and> w_iterations w = 1
          \<and> w_newNorm w = Vec (- 1) 0 0
          \<and> PhononVelocityIsInward example_env 0
               (GetGlobalDirection example_env (w_reflectedKDir w))
               (GetGlobalDirection example_env (w_newNorm w))
          \<and> GetReflectedVector example_env k n 0 p
               = RotateToGlobalDirection example_env (w_reflectedKDir w)
          \<and> \<not> PhononVelocityIsInward example_env 0 (GetReflectedVector example_env k n 0 p) n
          \<and> pc_killed pc
          \<and> pc_exceptions pc = [Boundary010 example_env ''specular'' 0])"
proof -
  have general: "chosen_branch e aTrack rng0 = Specular \<longrightarrow>
      (pc_killed (fst (DoReflection e aTrack aStep Initialize rng0))
        \<longleftrightarrow> \<not> PhononVelocityIsInward e (trk_mode aTrack)
               (GetReflectedVector e (trk_k aTrack) (stp_surfNorm aStep) (trk_mode aTrack)
                  (stp_surfacePoint aStep))
               (stp_surfNorm aStep))"
    by (simp add: DoReflection_Specular Let_def Initialize_def)
  have loop: "let w = SurfaceWalk e mode start
       in w_nAttempts w \<le> maxAttempts \<longrightarrow>
          PhononVelocityIsInward e mode (GetGlobalDirection e (w_reflectedKDir w))
            (GetGlobalDirection e (w_newNorm w))"
    using SurfaceWalk_exit [of e mode start] by (auto simp: Let_def)
  have k: "trk_k example_track = Vec (4/5) 0 (3/5)" "trk_mode example_track = 0"
    by (simp_all add: example_track_def)
  have n: "stp_surfNorm example_step = Vec 0 0 1" "stp_surfacePoint example_step = Vec 0 0 0"
    by (simp_all add: example_step_def)
  have out0: "\<not> PhononVelocityIsInward example_env 0 (Vec (4/5) 0 (- (3/5))) (Vec 0 0 1)"
    by (simp add: example_env_def example_naive_outward)
  have inw1: "PhononVelocityIsInward example_env 0
      (GetGlobalDirection example_env (Vec (3/5) 0 (4/5)))
      (GetGlobalDirection example_env (Vec (- 1) 0 0))"
    by (simp add: example_env_def velocity_inward_def MapKtoVDir_def vec_defs)
  have out1: "\<not> PhononVelocityIsInward example_env 0 (Vec (3/5) 0 (4/5)) (Vec 0 0 1)"
    by (simp add: example_env_def velocity_inward_def MapKtoVDir_def vec_defs)
  have glob: "RotateToGlobalDirection example_env d = d" for d
    by (simp add: example_env_def)
  have example: "let k = trk_k example_track; n = stp_surfNorm example_step;
           p = stp_surfacePoint example_step;
           w = SurfaceWalk example_env 0 (WalkInit example_env (NaiveReflection k n) n p);
           pc = fst (DoReflection example_env example_track example_step Initialize 0)
       in chosen_branch example_env example_track 0 = Specular
          \<and> \<not> PhononVelocityIsInward example_env 0 (NaiveReflection k n) n
          \<and> w_iterations w = 1
          \<and> w_newNorm w = Vec (- 1) 0 0
          \<and> PhononVelocityIsInward example_env 0
               (GetGlobalDirection example_env (w_reflectedKDir w))
               (GetGlobalDirection example_env (w_newNorm w))
          \<and> GetReflectedVector example_env k n 0 p
               = RotateToGlobalDirection example_env (w_reflectedKDir w)
          \<and> \<not> PhononVelocityIsInward example_env 0 (GetReflectedVector example_env k n 0 p) n
          \<and> pc_killed pc
          \<and> pc_exceptions pc = [Boundary010 example_env ''specular'' 0]"
    unfolding Let_def k n example_naive example_WalkInit example_SurfaceWalk
      example_GetReflectedVector example_DoReflection
    using out0 inw1 out1 example_chosen [of 0] by (simp add: glob)
  from general loop example show ?thesis by blast
qed

text \<open>The theorem at the example track and at the walk of the example.\<close>

theorem final_check_against_collision_normal_witness:
  "chosen_branch example_env example_track 0 = Specular
   \<and> \<not> PhononVelocityIsInward example_env (trk_mode example_track)
         (GetReflectedVector example_env (trk_k example_track) (stp_surfNorm example_step)
            (trk_mode example_track) (stp_surfacePoint example_step))
         (stp_surfNorm example_step)
   \<and> pc_killed (fst (DoReflection example_env example_track example_step Initialize 0))
   \<and> w_nAttempts (SurfaceWalk example_env 0
        (WalkInit example_env (Vec (4/5) 0 (- (3/5))) (Vec 0 0 1) (Vec 0 0 0))) \<le> maxAttempts
   \<and> PhononVelocityIsInward example_env 0
        (GetGlobalDirection example_env (w_reflectedKDir (SurfaceWalk example_env 0
           (WalkInit example_env (Vec (4/5) 0 (- (3/5))) (Vec 0 0 1) (Vec 0 0 0)))))
        (GetGlobalDirection example_env (w_newNorm (SurfaceWalk example_env 0
           (WalkInit example_env (Vec (4/5) 0 (- (3/5))) (Vec 0 0 1) (Vec 0 0 0)))))"
proof -
  have s: "chosen_branch example_env example_track 0 = Specular"
    by (rule example_chosen)
  have out: "\<not> PhononVelocityIsInward example_env (trk_mode example_track)
         (GetReflectedVector example_env (trk_k example_track) (stp_surfNorm example_step)
            (trk_mode example_track) (stp_surfacePoint example_step))
         (stp_surfNorm example_step)"
    by (simp add: example_track_def example_step_def example_GetReflectedVector)
       (simp add: example_env_def velocity_inward_def MapKtoVDir_def vec_defs)
  have att: "w_nAttempts (SurfaceWalk example_env 0
        (WalkInit example_env (Vec (4/5) 0 (- (3/5))) (Vec 0 0 1) (Vec 0 0 0))) \<le> maxAttempts"
    by (simp add: example_WalkInit example_SurfaceWalk maxAttempts_def)
  from final_check_against_collision_normal [of example_env example_track 0 example_step 0
      "WalkInit example_env (Vec (4/5) 0 (- (3/5))) (Vec 0 0 1) (Vec 0 0 0)"] s out att
  show ?thesis by (simp add: Let_def)
qed

end
